theory Spec2Isabelle
  imports Main "HOL-Library.Word"
begin

section \<open>Errors\<close>

text \<open>
  Go's \<open>error\<close> values. The controller creates one error itself
  (\<open>fmt.Errorf("no certificates found in PEM data")\<close>); every other error comes from a
  collaborator and is only inspected by \<open>errors.IsNotFound\<close> and handed on.
\<close>

datatype error =
    Errorf string
  | StatusNotFound string
  | RemoteError string

fun IsNotFound :: "error \<Rightarrow> bool" where
  "IsNotFound (StatusNotFound _) = True"
| "IsNotFound _ = False"

section \<open>PEM chain splitting\<close>

type_synonym bytes = "8 word list"

text \<open>
  \<open>pem.Block\<close> of Go's \<open>encoding/pem\<close>. The controller only reads \<open>Type\<close>; the headers
  are kept as an association list.
\<close>

record Block =
  Type :: string
  Headers :: "(string \<times> string) list"
  Bytes :: bytes

text \<open>
  The two functions of \<open>encoding/pem\<close> that \<open>splitCertificateChain\<close> calls are library
  code, so they are parameters of the model. \<open>Decode\<close> returns the next block and the rest
  of the input, or \<open>None\<close> where Go returns a nil block.
\<close>

record pem =
  Decode :: "bytes \<Rightarrow> (Block \<times> bytes) option"
  EncodeToMemory :: "Block \<Rightarrow> bytes"

text \<open>
  The decoding loop \<open>for { block, rest = pem.Decode(rest); ... }\<close>. Nothing in the
  controller bounds it: it ends when the decoder reports no further block. A run that
  never ends is the value \<open>None\<close>.
\<close>

partial_function (option) decodeLoop :: "pem \<Rightarrow> Block list \<Rightarrow> bytes \<Rightarrow> Block list option" where
  "decodeLoop lib certBlocks rest =
     (case Decode lib rest of
        None \<Rightarrow> Some certBlocks
      | Some (block, rest') \<Rightarrow>
          decodeLoop lib
            (if Type block = ''CERTIFICATE'' then certBlocks @ [block] else certBlocks)
            rest')"

text \<open>The loop \<open>for _, block := range certBlocks[1:]\<close> that appends each encoding.\<close>

fun chainLoop :: "pem \<Rightarrow> Block list \<Rightarrow> bytes \<Rightarrow> bytes" where
  "chainLoop lib [] chainBytes = chainBytes"
| "chainLoop lib (block # blocks) chainBytes =
     chainLoop lib blocks (chainBytes @ EncodeToMemory lib block)"

text \<open>
  \<open>splitCertificateChain\<close> returns \<open>(leafCertPEM, chainPEM, err)\<close>; the model returns the
  error or the pair. A nil slice and an empty slice are both \<open>[]\<close>.
\<close>

definition splitCertificateChain :: "pem \<Rightarrow> bytes \<Rightarrow> (error + bytes \<times> bytes) option" where
  "splitCertificateChain lib certChainPEM =
     (case decodeLoop lib [] certChainPEM of
        None \<Rightarrow> None
      | Some certBlocks \<Rightarrow>
          (case certBlocks of
             [] \<Rightarrow> Some (Inl (Errorf ''no certificates found in PEM data''))
           | leaf # others \<Rightarrow>
               Some (Inr (EncodeToMemory lib leaf,
                          if length certBlocks > 1 then chainLoop lib others [] else []))))"

text \<open>
  What it means for an input to contain a sequence of PEM blocks: decoding repeatedly
  yields exactly these blocks, in this order, and then no further block.
\<close>

inductive pem_blocks :: "pem \<Rightarrow> bytes \<Rightarrow> Block list \<Rightarrow> bool" where
  no_block: "Decode lib data = None \<Longrightarrow> pem_blocks lib data []"
| next_block: "Decode lib data = Some (block, rest) \<Longrightarrow> pem_blocks lib rest blocks
     \<Longrightarrow> pem_blocks lib data (block # blocks)"

definition is_certificate :: "Block \<Rightarrow> bool" where
  "is_certificate block = (Type block = ''CERTIFICATE'')"

text \<open>
  A miniature armour format that stands in for \<open>encoding/pem\<close> in the worked examples:
  a block is a tag byte (1 for a certificate, 2 for a private key) and one payload byte.
\<close>

fun miniDecode :: "bytes \<Rightarrow> (Block \<times> bytes) option" where
  "miniDecode (tag # payload # rest) =
     (if tag = 1 then Some (\<lparr>Type = ''CERTIFICATE'', Headers = [], Bytes = [payload]\<rparr>, rest)
      else if tag = 2 then Some (\<lparr>Type = ''PRIVATE KEY'', Headers = [], Bytes = [payload]\<rparr>, rest)
      else None)"
| "miniDecode _ = None"

definition miniEncode :: "Block \<Rightarrow> bytes" where
  "miniEncode block = (if Type block = ''CERTIFICATE'' then 1 else 2) # Bytes block"

definition miniPem :: pem where
  "miniPem = \<lparr>Decode = miniDecode, EncodeToMemory = miniEncode\<rparr>"

section \<open>Time\<close>

text \<open>
  An instant (\<open>time.Time\<close>) is its wall-clock reading in nanoseconds, a \<open>time.Duration\<close>
  a number of nanoseconds. The only operations used are \<open>Add\<close> and \<open>Before\<close>, on
  instants far from the ends of Go's range, so both are unbounded integers.
\<close>

type_synonym time = int
type_synonym duration = int

definition Second :: duration where
  "Second = 1000000000"

definition Minute :: duration where
  "Minute = 60 * Second"

definition Hour :: duration where
  "Hour = 60 * Minute"

definition Add :: "time \<Rightarrow> duration \<Rightarrow> time" where
  "Add t d = t + d"

definition Before :: "time \<Rightarrow> time \<Rightarrow> bool" where
  "Before t u = (t < u)"

section \<open>Kubernetes objects\<close>

record Secret =
  Namespace :: string
  Name :: string
  Annotations :: "string \<rightharpoonup> string"
  SecretType :: string
  Data :: "string \<rightharpoonup> bytes"

definition SecretTypeTLS :: string where
  "SecretTypeTLS = ''kubernetes.io/tls''"

definition TLSCertKey :: string where
  "TLSCertKey = ''tls.crt''"

definition TLSPrivateKeyKey :: string where
  "TLSPrivateKeyKey = ''tls.key''"

text \<open>Indexing a Go map: a missing key yields the zero value of the element type.\<close>

definition index_string :: "(string \<rightharpoonup> string) \<Rightarrow> string \<Rightarrow> string" where
  "index_string m k = (case m k of None \<Rightarrow> [] | Some v \<Rightarrow> v)"

definition index_bytes :: "(string \<rightharpoonup> bytes) \<Rightarrow> string \<Rightarrow> bytes" where
  "index_bytes m k = (case m k of None \<Rightarrow> [] | Some v \<Rightarrow> v)"

text \<open>\<open>ctrl.Result\<close>; \<open>ctrl.Result{}\<close> asks for no requeue.\<close>

record Result =
  Requeue :: bool
  RequeueAfter :: duration

definition noRequeue :: Result where
  "noRequeue = \<lparr>Requeue = False, RequeueAfter = 0\<rparr>"

definition requeueAfter :: "duration \<Rightarrow> Result" where
  "requeueAfter d = \<lparr>Requeue = False, RequeueAfter = d\<rparr>"

section \<open>The certificate service\<close>

text \<open>
  The SDK's structures hold pointers. A pointer that the controller only tests for nil,
  dereferences or hands on is modelled by what it points to (\<open>None\<close> for nil). The
  controller compares \<open>DomainName\<close> as a pointer, so that field is an address into a
  heap of strings.
\<close>

type_synonym addr = nat

record CertificateSummary =
  SummaryCertificateArn :: "string option"

record CertificateDetail =
  CertificateArn :: "string option"
  DomainName :: "addr option"
  NotAfter :: "time option"
  SubjectAlternativeNames :: "string list"

text \<open>What the service answers to \<open>DescribeCertificate\<close>, before the SDK stores it.\<close>

record DescribedCertificate =
  Arn :: "string option"
  Domain :: "string option"
  Expiry :: "time option"
  AlternativeNames :: "string list"

record ImportCertificateInput =
  Certificate :: bytes
  PrivateKey :: bytes
  CertificateChain :: bytes
  InputCertificateArn :: "string option"
  Tags :: "(string \<times> string) list"

text \<open>
  The collaborators of one reconciliation: the outcome of building the client
  (\<open>awsclient.NewACMClient\<close>), the secret store, the catalog as the pages the paginator
  receives in order (the first request is always made), the service's answers to
  \<open>DescribeCertificate\<close> and \<open>ImportCertificate\<close>, and the clock.
\<close>

record env =
  newACMClient :: "error option"
  getSecret :: "string \<times> string \<Rightarrow> error + Secret"
  firstPage :: "error + CertificateSummary list"
  laterPages :: "(error + CertificateSummary list) list"
  describeCertificate :: "string option \<Rightarrow> error + DescribedCertificate option"
  importCertificate :: "ImportCertificateInput \<Rightarrow> error option"
  now :: time

text \<open>
  The state threaded through a reconciliation: the calls made to collaborators so far,
  each with the error it returned, and the heap of strings with its next free address.
\<close>

datatype request =
    CallNewACMClient
  | CallGet "string \<times> string"
  | CallListCertificates
  | CallDescribeCertificate "string option"
  | CallImportCertificate ImportCertificateInput

type_synonym event = "request \<times> error option"

record state =
  calls :: "event list"
  heap :: "addr \<rightharpoonup> string"
  next_addr :: addr

definition record_call :: "request \<Rightarrow> error option \<Rightarrow> state \<Rightarrow> state" where
  "record_call r e s = s\<lparr>calls := calls s @ [(r, e)]\<rparr>"

text \<open>A new string variable: distinct variables have distinct addresses.\<close>

definition new_string :: "string \<Rightarrow> state \<Rightarrow> addr \<times> state" where
  "new_string v s =
     (next_addr s, s\<lparr>heap := (heap s)(next_addr s \<mapsto> v), next_addr := Suc (next_addr s)\<rparr>)"

definition NewACMClient :: "env \<Rightarrow> state \<Rightarrow> error option \<times> state" where
  "NewACMClient env s = (newACMClient env, record_call CallNewACMClient (newACMClient env) s)"

definition Get :: "env \<Rightarrow> string \<times> string \<Rightarrow> state \<Rightarrow> (error + Secret) \<times> state" where
  "Get env key s =
     (case getSecret env key of
        Inl err \<Rightarrow> (Inl err, record_call (CallGet key) (Some err) s)
      | Inr secret \<Rightarrow> (Inr secret, record_call (CallGet key) None s))"

text \<open>
  \<open>DescribeCertificate\<close>: on success the SDK stores the answer in fresh memory, so the
  \<open>DomainName\<close> pointer of the result is a new address. \<open>Certificate\<close> is a pointer and
  may be nil.
\<close>

definition store_detail :: "DescribedCertificate \<Rightarrow> state \<Rightarrow> CertificateDetail \<times> state" where
  "store_detail c s =
     (case Domain c of
        None \<Rightarrow>
          (\<lparr>CertificateArn = Arn c, DomainName = None, NotAfter = Expiry c,
            SubjectAlternativeNames = AlternativeNames c\<rparr>, s)
      | Some v \<Rightarrow>
          (case new_string v s of
             (a, s') \<Rightarrow>
               (\<lparr>CertificateArn = Arn c, DomainName = Some a, NotAfter = Expiry c,
                 SubjectAlternativeNames = AlternativeNames c\<rparr>, s')))"

definition DescribeCertificate ::
  "env \<Rightarrow> string option \<Rightarrow> state \<Rightarrow> (error + CertificateDetail option) \<times> state" where
  "DescribeCertificate env arn s =
     (case describeCertificate env arn of
        Inl err \<Rightarrow> (Inl err, record_call (CallDescribeCertificate arn) (Some err) s)
      | Inr None \<Rightarrow> (Inr None, record_call (CallDescribeCertificate arn) None s)
      | Inr (Some c) \<Rightarrow>
          (case store_detail c (record_call (CallDescribeCertificate arn) None s) of
             (detail, s') \<Rightarrow> (Inr (Some detail), s')))"

definition ImportCertificate ::
  "env \<Rightarrow> ImportCertificateInput \<Rightarrow> state \<Rightarrow> error option \<times> state" where
  "ImportCertificate env input s =
     (importCertificate env input,
      record_call (CallImportCertificate input) (importCertificate env input) s)"

section \<open>The locator\<close>

text \<open>
  A call either returns or panics (a nil pointer dereference). Log output is not part of
  the model.
\<close>

datatype 'a outcome = Returns 'a | Panics

type_synonym located = "(error + CertificateDetail option) outcome"

text \<open>\<open>for _, san := range certDetail.SubjectAlternativeNames\<close>: is there a match?\<close>

fun sanLoop :: "string list \<Rightarrow> string \<Rightarrow> bool" where
  "sanLoop [] domainName = False"
| "sanLoop (san # sans) domainName = (if san = domainName then True else sanLoop sans domainName)"

text \<open>
  The loop over one page's summaries. \<open>addrDomainName\<close> is \<open>&domainName\<close>. The result
  is \<open>None\<close> when the loop ends without returning from the function.
\<close>

fun summaryLoop ::
  "env \<Rightarrow> addr \<Rightarrow> string \<Rightarrow> CertificateSummary list \<Rightarrow> state \<Rightarrow> located option \<times> state" where
  "summaryLoop env addrDomainName domainName [] s = (None, s)"
| "summaryLoop env addrDomainName domainName (certSummary # summaries) s =
     (case DescribeCertificate env (SummaryCertificateArn certSummary) s of
        (Inl err, s') \<Rightarrow> (Some (Returns (Inl err)), s')
      | (Inr None, s') \<Rightarrow> (Some Panics, s')
      | (Inr (Some certDetail), s') \<Rightarrow>
          if DomainName certDetail = Some addrDomainName
          then (Some (Returns (Inr (Some certDetail))), s')
          else if sanLoop (SubjectAlternativeNames certDetail) domainName
          then (Some (Returns (Inr (Some certDetail))), s')
          else summaryLoop env addrDomainName domainName summaries s')"

text \<open>\<open>for paginator.HasMorePages()\<close> over the pages still to come.\<close>

fun pageLoop ::
  "env \<Rightarrow> addr \<Rightarrow> string \<Rightarrow> (error + CertificateSummary list) list \<Rightarrow> state \<Rightarrow> located \<times> state" where
  "pageLoop env addrDomainName domainName [] s = (Returns (Inr None), s)"
| "pageLoop env addrDomainName domainName (page # pages) s =
     (case page of
        Inl err \<Rightarrow> (Returns (Inl err), record_call CallListCertificates (Some err) s)
      | Inr summaries \<Rightarrow>
          (case summaryLoop env addrDomainName domainName summaries
                  (record_call CallListCertificates None s) of
             (Some result, s') \<Rightarrow> (result, s')
           | (None, s') \<Rightarrow> pageLoop env addrDomainName domainName pages s'))"

text \<open>
  \<open>findSecretByDomain\<close> is the same in both files. Its parameter \<open>domainName\<close> is a
  variable of the call, with an address of its own.
\<close>

definition findSecretByDomain :: "env \<Rightarrow> string \<Rightarrow> state \<Rightarrow> located \<times> state" where
  "findSecretByDomain env domainName s =
     (case new_string domainName s of
        (addrDomainName, s') \<Rightarrow>
          pageLoop env addrDomainName domainName (firstPage env # laterPages env) s')"

section \<open>The reconciler with the 72-hour window\<close>

definition ownershipTag :: "Secret \<Rightarrow> string \<times> string" where
  "ownershipTag secret = (''kubernetes-secrets'', Namespace secret @ ''/'' @ Name secret)"

definition importToAcm ::
  "env \<Rightarrow> Secret \<Rightarrow> bytes \<Rightarrow> bytes \<Rightarrow> bytes \<Rightarrow> state \<Rightarrow> error option \<times> state" where
  "importToAcm env secret certPEM chainPEM keyPEM s =
     ImportCertificate env
       \<lparr>Certificate = certPEM, PrivateKey = keyPEM, CertificateChain = chainPEM,
        InputCertificateArn = None, Tags = [ownershipTag secret]\<rparr> s"

definition updateToAcm ::
  "env \<Rightarrow> Secret \<Rightarrow> string option \<Rightarrow> bytes \<Rightarrow> bytes \<Rightarrow> bytes \<Rightarrow> state \<Rightarrow> error option \<times> state" where
  "updateToAcm env secret certificateArn certPEM chainPEM keyPEM s =
     ImportCertificate env
       \<lparr>Certificate = certPEM, PrivateKey = keyPEM, CertificateChain = chainPEM,
        InputCertificateArn = certificateArn, Tags = [ownershipTag secret]\<rparr> s"

text \<open>The end of \<open>Reconcile\<close>, from \<open>if existingCertificate != nil\<close> on.\<close>

definition syncCertificate ::
  "env \<Rightarrow> Secret \<Rightarrow> CertificateDetail option \<Rightarrow> bytes \<Rightarrow> bytes \<Rightarrow> bytes \<Rightarrow> state
     \<Rightarrow> (Result \<times> error option) \<times> state" where
  "syncCertificate env secret existingCertificate leafCert chainCert key s =
     (case existingCertificate of
        Some existing \<Rightarrow>
          (case NotAfter existing of
             None \<Rightarrow> ((requeueAfter (24 * Hour), None), s)
           | Some notAfter \<Rightarrow>
               if Before notAfter (Add (now env) (72 * Hour))
               then (case updateToAcm env secret (CertificateArn existing)
                            leafCert chainCert key s of
                       (Some err, s') \<Rightarrow> ((requeueAfter (5 * Minute), Some err), s')
                     | (None, s') \<Rightarrow> ((requeueAfter (24 * Hour), None), s'))
               else ((requeueAfter (24 * Hour), None), s))
      | None \<Rightarrow>
          (case importToAcm env secret leafCert chainCert key s of
             (Some err, s') \<Rightarrow> ((requeueAfter (5 * Minute), Some err), s')
           | (None, s') \<Rightarrow> ((requeueAfter (24 * Hour), None), s')))"

text \<open>From \<open>r.findSecretByDomain\<close> on, for a secret that passed the filter.\<close>

definition reconcileDomain ::
  "pem \<Rightarrow> env \<Rightarrow> Secret \<Rightarrow> string \<Rightarrow> state \<Rightarrow> ((Result \<times> error option) outcome \<times> state) option" where
  "reconcileDomain lib env secret domainName s =
     (case findSecretByDomain env domainName s of
        (Panics, s') \<Rightarrow> Some (Panics, s')
      | (Returns (Inl err), s') \<Rightarrow> Some (Returns (requeueAfter (5 * Minute), Some err), s')
      | (Returns (Inr existingCertificate), s') \<Rightarrow>
          (case splitCertificateChain lib (index_bytes (Data secret) TLSCertKey) of
             None \<Rightarrow> None
           | Some (Inl err) \<Rightarrow> Some (Returns (requeueAfter (5 * Minute), Some err), s')
           | Some (Inr (leafCert, chainCert)) \<Rightarrow>
               (case syncCertificate env secret existingCertificate leafCert chainCert
                       (index_bytes (Data secret) TLSPrivateKeyKey) s' of
                  (result, s'') \<Rightarrow> Some (Returns result, s''))))"

text \<open>The three checks on the fetched secret.\<close>

definition reconcileSecret ::
  "pem \<Rightarrow> env \<Rightarrow> Secret \<Rightarrow> state \<Rightarrow> ((Result \<times> error option) outcome \<times> state) option" where
  "reconcileSecret lib env secret s =
     (if index_string (Annotations secret) ''sync-to-acm'' \<noteq> ''true''
      then Some (Returns (noRequeue, None), s)
      else if SecretType secret \<noteq> SecretTypeTLS
      then Some (Returns (noRequeue, None), s)
      else (case Annotations secret ''cert-manager.io/common-name'' of
              None \<Rightarrow> Some (Returns (noRequeue, None), s)
            | Some domainName \<Rightarrow>
                if domainName = []
                then Some (Returns (noRequeue, None), s)
                else reconcileDomain lib env secret domainName s))"

definition Reconcile ::
  "pem \<Rightarrow> env \<Rightarrow> string \<times> string \<Rightarrow> state \<Rightarrow> ((Result \<times> error option) outcome \<times> state) option" where
  "Reconcile lib env req s =
     (case NewACMClient env s of
        (Some err, s') \<Rightarrow> Some (Returns (noRequeue, Some err), s')
      | (None, s') \<Rightarrow>
          (case Get env req s' of
             (Inl err, s'') \<Rightarrow>
               if IsNotFound err
               then Some (Returns (noRequeue, None), s'')
               else Some (Returns (noRequeue, Some err), s'')
           | (Inr secret, s'') \<Rightarrow> reconcileSecret lib env secret s''))"

section \<open>The reconciler that replaces only expired certificates\<close>

text \<open>
  \<open>controllers/secret_controller.go\<close>: no chain splitting, no requeue interval, and the
  certificate is replaced only when \<open>NotAfter\<close> is before now. Its log statement
  dereferences \<open>CertificateArn\<close> and \<open>NotAfter\<close> before the nil test.
\<close>

definition importToAcm_secret_controller ::
  "env \<Rightarrow> Secret \<Rightarrow> bytes \<Rightarrow> bytes \<Rightarrow> state \<Rightarrow> error option \<times> state" where
  "importToAcm_secret_controller env secret certPEM keyPEM s =
     ImportCertificate env
       \<lparr>Certificate = certPEM, PrivateKey = keyPEM, CertificateChain = [],
        InputCertificateArn = None, Tags = [ownershipTag secret]\<rparr> s"

definition updateToAcm_secret_controller ::
  "env \<Rightarrow> Secret \<Rightarrow> string \<Rightarrow> bytes \<Rightarrow> bytes \<Rightarrow> state \<Rightarrow> error option \<times> state" where
  "updateToAcm_secret_controller env secret certificateArn certPEM keyPEM s =
     ImportCertificate env
       \<lparr>Certificate = certPEM, PrivateKey = keyPEM, CertificateChain = [],
        InputCertificateArn = Some certificateArn, Tags = [ownershipTag secret]\<rparr> s"

definition syncCertificate_secret_controller ::
  "env \<Rightarrow> Secret \<Rightarrow> CertificateDetail option \<Rightarrow> bytes \<Rightarrow> bytes \<Rightarrow> state
     \<Rightarrow> (Result \<times> error option) outcome \<times> state" where
  "syncCertificate_secret_controller env secret existingCertificate cert key s =
     (case existingCertificate of
        Some existing \<Rightarrow>
          (case CertificateArn existing of
             None \<Rightarrow> (Panics, s)
           | Some arn \<Rightarrow>
               (case NotAfter existing of
                  None \<Rightarrow> (Panics, s)
                | Some notAfter \<Rightarrow>
                    if Before notAfter (now env)
                    then (case updateToAcm_secret_controller env secret arn cert key s of
                            (Some err, s') \<Rightarrow> (Returns (noRequeue, Some err), s')
                          | (None, s') \<Rightarrow> (Returns (noRequeue, None), s'))
                    else (Returns (noRequeue, None), s)))
      | None \<Rightarrow>
          (case importToAcm_secret_controller env secret cert key s of
             (Some err, s') \<Rightarrow> (Returns (noRequeue, Some err), s')
           | (None, s') \<Rightarrow> (Returns (noRequeue, None), s')))"

definition reconcileDomain_secret_controller ::
  "env \<Rightarrow> Secret \<Rightarrow> string \<Rightarrow> state \<Rightarrow> (Result \<times> error option) outcome \<times> state" where
  "reconcileDomain_secret_controller env secret domainName s =
     (case findSecretByDomain env domainName s of
        (Panics, s') \<Rightarrow> (Panics, s')
      | (Returns (Inl err), s') \<Rightarrow> (Returns (noRequeue, Some err), s')
      | (Returns (Inr existingCertificate), s') \<Rightarrow>
          syncCertificate_secret_controller env secret existingCertificate
            (index_bytes (Data secret) TLSCertKey)
            (index_bytes (Data secret) TLSPrivateKeyKey) s')"

definition reconcileSecret_secret_controller ::
  "env \<Rightarrow> Secret \<Rightarrow> state \<Rightarrow> (Result \<times> error option) outcome \<times> state" where
  "reconcileSecret_secret_controller env secret s =
     (if index_string (Annotations secret) ''sync-to-acm'' \<noteq> ''true''
      then (Returns (noRequeue, None), s)
      else if SecretType secret \<noteq> SecretTypeTLS
      then (Returns (noRequeue, None), s)
      else (case Annotations secret ''cert-manager.io/common-name'' of
              None \<Rightarrow> (Returns (noRequeue, None), s)
            | Some domainName \<Rightarrow>
                if domainName = []
                then (Returns (noRequeue, None), s)
                else reconcileDomain_secret_controller env secret domainName s))"

definition Reconcile_secret_controller ::
  "env \<Rightarrow> string \<times> string \<Rightarrow> state \<Rightarrow> (Result \<times> error option) outcome \<times> state" where
  "Reconcile_secret_controller env req s =
     (case NewACMClient env s of
        (Some err, s') \<Rightarrow> (Returns (noRequeue, Some err), s')
      | (None, s') \<Rightarrow>
          (case Get env req s' of
             (Inl err, s'') \<Rightarrow>
               if IsNotFound err
               then (Returns (noRequeue, None), s'')
               else (Returns (noRequeue, Some err), s'')
           | (Inr secret, s'') \<Rightarrow> reconcileSecret_secret_controller env secret s''))"

section \<open>Observations\<close>

text \<open>The calls made between two states of one run.\<close>

definition calls_since :: "state \<Rightarrow> state \<Rightarrow> event list" where
  "calls_since s s' = drop (length (calls s)) (calls s')"

text \<open>The inputs of the \<open>ImportCertificate\<close> calls among some calls, in order.\<close>

fun import_inputs :: "event list \<Rightarrow> ImportCertificateInput list" where
  "import_inputs [] = []"
| "import_inputs ((CallImportCertificate input, _) # evs) = input # import_inputs evs"
| "import_inputs (_ # evs) = import_inputs evs"

text \<open>The calls that go to the certificate service.\<close>

fun is_acm_call :: "event \<Rightarrow> bool" where
  "is_acm_call (CallListCertificates, _) = True"
| "is_acm_call (CallDescribeCertificate _, _) = True"
| "is_acm_call (CallImportCertificate _, _) = True"
| "is_acm_call _ = False"

text \<open>The inputs of the \<open>ImportCertificate\<close> calls made during a run that returned.\<close>

definition imports_during ::
  "state \<Rightarrow> ('a \<times> state) option \<Rightarrow> ImportCertificateInput list option" where
  "imports_during s run = map_option (\<lambda>(out, s'). import_inputs (calls_since s s')) run"

text \<open>What a run returned, and all the calls recorded at its end.\<close>

definition observe :: "('a \<times> state) option \<Rightarrow> ('a \<times> event list) option" where
  "observe run = map_option (\<lambda>(out, s). (out, calls s)) run"

text \<open>A secret that passes the three checks of \<open>Reconcile\<close>, with its domain name.\<close>

definition eligible :: "Secret \<Rightarrow> string \<Rightarrow> bool" where
  "eligible secret domainName \<longleftrightarrow>
     index_string (Annotations secret) ''sync-to-acm'' = ''true'' \<and>
     SecretType secret = SecretTypeTLS \<and>
     Annotations secret ''cert-manager.io/common-name'' = Some domainName \<and>
     domainName \<noteq> []"

text \<open>The state once the client is built and the secret fetched, both without error.\<close>

definition fetched :: "string \<times> string \<Rightarrow> state \<Rightarrow> state" where
  "fetched req s = record_call (CallGet req) None (record_call CallNewACMClient None s)"

text \<open>The import request built for a secret, with or without an existing identifier.\<close>

definition upsertInput ::
  "Secret \<Rightarrow> string option \<Rightarrow> bytes \<Rightarrow> bytes \<Rightarrow> ImportCertificateInput" where
  "upsertInput secret arn leafCert chainCert =
     \<lparr>Certificate = leafCert, PrivateKey = index_bytes (Data secret) TLSPrivateKeyKey,
      CertificateChain = chainCert, InputCertificateArn = arn, Tags = [ownershipTag secret]\<rparr>"

text \<open>
  Every page of the catalog is delivered and every certificate listed on it is described,
  all without error.
\<close>

definition detail_fetched :: "env \<Rightarrow> CertificateSummary \<Rightarrow> bool" where
  "detail_fetched env certSummary =
     (case describeCertificate env (SummaryCertificateArn certSummary) of
        Inl _ \<Rightarrow> False | Inr _ \<Rightarrow> True)"

definition page_fetched :: "env \<Rightarrow> error + CertificateSummary list \<Rightarrow> bool" where
  "page_fetched env page =
     (case page of Inl _ \<Rightarrow> False | Inr summaries \<Rightarrow> list_all (detail_fetched env) summaries)"

definition catalog_fetched :: "env \<Rightarrow> bool" where
  "catalog_fetched env = list_all (page_fetched env) (firstPage env # laterPages env)"

section \<open>Worked examples: data\<close>

definition certBlock :: "8 word \<Rightarrow> Block" where
  "certBlock payload = \<lparr>Type = ''CERTIFICATE'', Headers = [], Bytes = [payload]\<rparr>"

definition keyBlock :: "8 word \<Rightarrow> Block" where
  "keyBlock payload = \<lparr>Type = ''PRIVATE KEY'', Headers = [], Bytes = [payload]\<rparr>"

text \<open>A key, a leaf, an intermediate, another key and a root, in the miniature format.\<close>

definition tlsCrt :: bytes where
  "tlsCrt = [2, 9, 1, 10, 1, 20, 2, 7, 1, 30]"

definition keysOnly :: bytes where
  "keysOnly = [2, 3, 2, 4]"

text \<open>
  Secrets in namespace \<open>web\<close>: two that ask for synchronisation of \<open>example.com\<close> (one
  whose payload holds no certificate) and one without the opt-in annotation.
\<close>

definition exampleSecret :: "string \<Rightarrow> bytes \<Rightarrow> Secret" where
  "exampleSecret name crt =
     \<lparr>Namespace = ''web'', Name = name,
      Annotations = [''sync-to-acm'' \<mapsto> ''true'',
                     ''cert-manager.io/common-name'' \<mapsto> ''example.com''],
      SecretType = ''kubernetes.io/tls'',
      Data = [''tls.crt'' \<mapsto> crt, ''tls.key'' \<mapsto> [2, 9]]\<rparr>"

definition plainSecret :: Secret where
  "plainSecret =
     \<lparr>Namespace = ''web'', Name = ''plain'',
      Annotations = [''cert-manager.io/common-name'' \<mapsto> ''example.com''],
      SecretType = ''kubernetes.io/tls'',
      Data = [''tls.crt'' \<mapsto> tlsCrt, ''tls.key'' \<mapsto> [2, 9]]\<rparr>"

text \<open>
  Certificates of the service: one for another domain, one for \<open>example.com\<close> with a
  given expiry, and one whose primary domain is \<open>example.com\<close> while its alternate
  names list only \<open>www.example.com\<close>.
\<close>

definition otherCertificate :: DescribedCertificate where
  "otherCertificate =
     \<lparr>Arn = Some ''arn:0'', Domain = Some ''other.org'', Expiry = Some 0,
      AlternativeNames = [''other.org'']\<rparr>"

definition exampleCertificate :: "time option \<Rightarrow> DescribedCertificate" where
  "exampleCertificate expiry =
     \<lparr>Arn = Some ''arn:1'', Domain = Some ''example.com'', Expiry = expiry,
      AlternativeNames = [''example.com'', ''www.example.com'']\<rparr>"

definition commonNameOnly :: DescribedCertificate where
  "commonNameOnly =
     \<lparr>Arn = Some ''arn:2'', Domain = Some ''example.com'', Expiry = Some 0,
      AlternativeNames = [''www.example.com'']\<rparr>"

text \<open>
  Collaborators at time 1000 h: the first catalog page lists \<open>arn:0\<close>; the later pages,
  the expiry of \<open>arn:1\<close> and the answer to every import are parameters.
\<close>

definition exampleEnv ::
  "(error + CertificateSummary list) list \<Rightarrow> time option \<Rightarrow> error option \<Rightarrow> env" where
  "exampleEnv pages expiry imported =
     \<lparr>newACMClient = None,
      getSecret =
        (\<lambda>key. if key = (''web'', ''tls'') then Inr (exampleSecret ''tls'' tlsCrt)
               else if key = (''web'', ''keys'') then Inr (exampleSecret ''keys'' keysOnly)
               else if key = (''web'', ''plain'') then Inr plainSecret
               else Inl (StatusNotFound ''secrets'')),
      firstPage = Inr [\<lparr>SummaryCertificateArn = Some ''arn:0''\<rparr>],
      laterPages = pages,
      describeCertificate =
        (\<lambda>arn. if arn = Some ''arn:0'' then Inr (Some otherCertificate)
               else if arn = Some ''arn:1'' then Inr (Some (exampleCertificate expiry))
               else if arn = Some ''arn:2'' then Inr (Some commonNameOnly)
               else Inl (RemoteError ''ResourceNotFoundException'')),
      importCertificate = (\<lambda>input. imported),
      now = 1000 * Hour\<rparr>"

definition onPage :: "string \<Rightarrow> (error + CertificateSummary list) list" where
  "onPage arn = [Inr [\<lparr>SummaryCertificateArn = Some arn\<rparr>]]"

definition noClientEnv :: env where
  "noClientEnv =
     (exampleEnv [] None None)\<lparr>newACMClient := Some (RemoteError ''NoCredentialProviders'')\<rparr>"

definition initial :: state where
  "initial = \<lparr>calls = [], heap = Map.empty, next_addr = 0\<rparr>"

text \<open>The record found for \<open>example.com\<close> when \<open>arn:1\<close> is on the second page.\<close>

definition exampleDetail :: "time option \<Rightarrow> CertificateDetail" where
  "exampleDetail expiry =
     \<lparr>CertificateArn = Some ''arn:1'', DomainName = Some 2, NotAfter = expiry,
      SubjectAlternativeNames = [''example.com'', ''www.example.com'']\<rparr>"

declare decodeLoop.simps [code]

section \<open>Properties of the splitter\<close>

lemma certificate_type: "(Type block = ''CERTIFICATE'') = is_certificate block"
  by (simp add: is_certificate_def)

lemma decodeLoop_blocks:
  "pem_blocks lib data blocks \<Longrightarrow>
     decodeLoop lib acc data = Some (acc @ filter is_certificate blocks)"
proof (induction arbitrary: acc rule: pem_blocks.induct)
  case (no_block lib data)
  then show ?case by (subst decodeLoop.simps) simp
next
  case (next_block lib data block rest blocks)
  show ?case
    by (subst decodeLoop.simps) (simp add: next_block certificate_type)
qed

lemma chainLoop_concat:
  "chainLoop lib blocks acc = acc @ concat (map (EncodeToMemory lib) blocks)"
  by (induction blocks arbitrary: acc) simp_all

text \<open>
  A decoder that consumes input whenever it finds a block (as Go's does) gives every
  input a finite block sequence, so the hypotheses below cover every byte sequence.
\<close>

lemma shrinking_decoder_has_blocks:
  assumes "\<And>d block rest. Decode lib d = Some (block, rest) \<Longrightarrow> length rest < length d"
  shows "\<exists>blocks. pem_blocks lib data blocks"
proof (induction data rule: length_induct)
  case (1 data)
  show ?case
  proof (cases "Decode lib data")
    case None
    then show ?thesis by (blast intro: pem_blocks.no_block)
  next
    case (Some p)
    obtain block rest where p: "p = (block, rest)" by (cases p)
    with Some assms have "length rest < length data" by blast
    with 1 obtain blocks where "pem_blocks lib rest blocks" by blast
    with Some p show ?thesis by (blast intro: pem_blocks.next_block)
  qed
qed

text \<open>
  C4. For an input whose PEM blocks include at least one of type CERTIFICATE,
  \<open>splitCertificateChain\<close> returns, without error, the encoding of the first such block
  as the leaf and the concatenated encodings of the later CERTIFICATE blocks, in their
  order, as the chain (empty when there is only one); blocks of other types are left
  out. The function is a pure function of its input: it reads no state and writes none.
\<close>

theorem splitCertificateChain_leaf_and_chain:
  assumes "pem_blocks lib data blocks"
    and "filter is_certificate blocks = leaf # others"
  shows "splitCertificateChain lib data =
           Some (Inr (EncodeToMemory lib leaf, concat (map (EncodeToMemory lib) others)))"
proof -
  have "decodeLoop lib [] data = Some (leaf # others)"
    using decodeLoop_blocks [OF assms(1), of "[]"] assms(2) by simp
  then show ?thesis
    by (cases others) (simp_all add: splitCertificateChain_def chainLoop_concat)
qed

lemma miniPem_simps [simp]:
  "Decode miniPem = miniDecode" "EncodeToMemory miniPem = miniEncode"
  by (simp_all add: miniPem_def)

inductive_simps pem_blocks_Nil: "pem_blocks lib data []"

inductive_simps pem_blocks_Cons: "pem_blocks lib data (block # blocks)"

lemma tlsCrt_blocks:
  "pem_blocks miniPem tlsCrt [keyBlock 9, certBlock 10, certBlock 20, keyBlock 7, certBlock 30]"
  by (simp add: tlsCrt_def pem_blocks_Nil pem_blocks_Cons certBlock_def keyBlock_def)

lemma keysOnly_blocks: "pem_blocks miniPem keysOnly [keyBlock 3, keyBlock 4]"
  by (simp add: keysOnly_def pem_blocks_Nil pem_blocks_Cons keyBlock_def)

theorem splitCertificateChain_leaf_and_chain_witness:
  "pem_blocks miniPem tlsCrt [keyBlock 9, certBlock 10, certBlock 20, keyBlock 7, certBlock 30]
   \<and> filter is_certificate [keyBlock 9, certBlock 10, certBlock 20, keyBlock 7, certBlock 30]
       = [certBlock 10, certBlock 20, certBlock 30]
   \<and> splitCertificateChain miniPem tlsCrt = Some (Inr ([1, 10], [1, 20, 1, 30]))"
proof -
  have certs:
    "filter is_certificate [keyBlock 9, certBlock 10, certBlock 20, keyBlock 7, certBlock 30]
       = certBlock 10 # [certBlock 20, certBlock 30]"
    by (simp add: is_certificate_def certBlock_def keyBlock_def)
  from splitCertificateChain_leaf_and_chain [OF tlsCrt_blocks certs] certs tlsCrt_blocks
  show ?thesis by (simp add: miniEncode_def certBlock_def)
qed

text \<open>
  C6. For an input whose PEM blocks include none of type CERTIFICATE (no block at all, or
  only blocks of other types), \<open>splitCertificateChain\<close> returns the error
  "no certificates found in PEM data", and with it no leaf and no chain.
\<close>

theorem splitCertificateChain_no_certificate:
  assumes "pem_blocks lib data blocks"
    and "filter is_certificate blocks = []"
  shows "splitCertificateChain lib data =
           Some (Inl (Errorf ''no certificates found in PEM data''))"
  using decodeLoop_blocks [OF assms(1), of "[]"] assms(2)
  by (simp add: splitCertificateChain_def)

theorem splitCertificateChain_no_certificate_witness:
  "pem_blocks miniPem keysOnly [keyBlock 3, keyBlock 4]
   \<and> filter is_certificate [keyBlock 3, keyBlock 4] = []
   \<and> splitCertificateChain miniPem keysOnly =
       Some (Inl (Errorf ''no certificates found in PEM data''))"
proof -
  have none: "filter is_certificate [keyBlock 3, keyBlock 4] = []"
    by (simp add: is_certificate_def keyBlock_def)
  from splitCertificateChain_no_certificate [OF keysOnly_blocks none] none keysOnly_blocks
  show ?thesis by simp
qed

text \<open>The empty input is such an input for every decoder that finds no block in it.\<close>

lemma splitCertificateChain_empty_input:
  "Decode lib [] = None \<Longrightarrow>
     splitCertificateChain lib [] = Some (Inl (Errorf ''no certificates found in PEM data''))"
  by (simp add: splitCertificateChain_def decodeLoop.simps)


section \<open>Calls and addresses\<close>

lemma record_call_simps [simp]:
  "calls (record_call r e s) = calls s @ [(r, e)]"
  "heap (record_call r e s) = heap s"
  "next_addr (record_call r e s) = next_addr s"
  by (simp_all add: record_call_def)

lemma new_string_simps:
  "new_string v s = (a, s') \<Longrightarrow> calls s' = calls s"
  "new_string v s = (a, s') \<Longrightarrow> a = next_addr s"
  "new_string v s = (a, s') \<Longrightarrow> next_addr s' = Suc (next_addr s)"
  by (auto simp: new_string_def)

lemma store_detail_calls: "store_detail c s = (d, s') \<Longrightarrow> calls s' = calls s"
  by (auto simp: store_detail_def new_string_def split: option.splits)

lemma DescribeCertificate_calls:
  "DescribeCertificate env arn s = (r, s') \<Longrightarrow>
     calls s' = calls s @ [(CallDescribeCertificate arn, case r of Inl err \<Rightarrow> Some err | Inr _ \<Rightarrow> None)]"
  by (auto simp: DescribeCertificate_def split: sum.splits option.splits prod.splits
      dest: store_detail_calls)

lemma DescribeCertificate_answer:
  "DescribeCertificate env arn s = (r, s') \<Longrightarrow>
     (case r of Inl err \<Rightarrow> describeCertificate env arn = Inl err
      | Inr None \<Rightarrow> describeCertificate env arn = Inr None
      | Inr (Some d) \<Rightarrow> \<exists>c. describeCertificate env arn = Inr (Some c))"
  by (auto simp: DescribeCertificate_def split: sum.splits option.splits prod.splits)

lemma import_inputs_append [simp]:
  "import_inputs (xs @ ys) = import_inputs xs @ import_inputs ys"
  by (induction xs rule: import_inputs.induct) simp_all

lemma calls_since_append: "calls s' = calls s @ evs \<Longrightarrow> calls_since s s' = evs"
  by (simp add: calls_since_def)

lemma calls_fetched: "calls (fetched req s) = calls s @ [(CallNewACMClient, None), (CallGet req, None)]"
  by (simp add: fetched_def)

section \<open>Properties of the locator\<close>

text \<open>
  The locator only lists and describes, and the first failing call ends it with that
  call's error.
\<close>

lemma summaryLoop_trace:
  "summaryLoop env a dn summaries s = (r, s') \<Longrightarrow>
     \<exists>evs. calls s' = calls s @ evs \<and> import_inputs evs = [] \<and> list_all is_acm_call evs \<and>
       (\<forall>ev \<in> set evs. \<forall>err. snd ev = Some err \<longrightarrow> r = Some (Returns (Inl err)))"
proof (induction summaries arbitrary: s)
  case Nil
  then show ?case by simp
next
  case (Cons c cs)
  obtain d s1 where d: "DescribeCertificate env (SummaryCertificateArn c) s = (d, s1)"
    by (cases "DescribeCertificate env (SummaryCertificateArn c) s")
  note tr = DescribeCertificate_calls [OF d]
  show ?case
  proof (cases d)
    case (Inl err)
    with Cons.prems d tr show ?thesis by auto
  next
    case (Inr od)
    show ?thesis
    proof (cases od)
      case None
      with Cons.prems d tr Inr show ?thesis by auto
    next
      case (Some detail)
      show ?thesis
      proof (cases "DomainName detail = Some a \<or> sanLoop (SubjectAlternativeNames detail) dn")
        case True
        with Cons.prems d Inr Some have "r = Some (Returns (Inr (Some detail)))" "s' = s1"
          by (auto split: if_splits)
        with tr Inr show ?thesis by simp
      next
        case False
        with Cons.prems d Inr Some have "summaryLoop env a dn cs s1 = (r, s')" by simp
        from Cons.IH [OF this] obtain evs where
          evs: "calls s' = calls s1 @ evs" "import_inputs evs = []" "list_all is_acm_call evs"
            "\<forall>ev \<in> set evs. \<forall>err. snd ev = Some err \<longrightarrow> r = Some (Returns (Inl err))"
          by blast
        with tr Inr show ?thesis
          by (intro exI [of _ "(CallDescribeCertificate (SummaryCertificateArn c), None) # evs"]) simp
      qed
    qed
  qed
qed

lemma pageLoop_trace:
  "pageLoop env a dn pages s = (r, s') \<Longrightarrow>
     \<exists>evs. calls s' = calls s @ evs \<and> import_inputs evs = [] \<and> list_all is_acm_call evs \<and>
       (\<forall>ev \<in> set evs. \<forall>err. snd ev = Some err \<longrightarrow> r = Returns (Inl err))"
proof (induction pages arbitrary: s)
  case Nil
  then show ?case by simp
next
  case (Cons page pages)
  show ?case
  proof (cases page)
    case (Inl err)
    with Cons.prems show ?thesis by auto
  next
    case (Inr summaries)
    obtain sr s1 where sl:
      "summaryLoop env a dn summaries (record_call CallListCertificates None s) = (sr, s1)"
      by (cases "summaryLoop env a dn summaries (record_call CallListCertificates None s)")
    from summaryLoop_trace [OF sl] obtain evs1 where
      evs1: "calls s1 = calls s @ (CallListCertificates, None) # evs1"
        "import_inputs evs1 = []" "list_all is_acm_call evs1"
        "\<forall>ev \<in> set evs1. \<forall>err. snd ev = Some err \<longrightarrow> sr = Some (Returns (Inl err))"
      by auto
    show ?thesis
    proof (cases sr)
      case (Some result)
      with Cons.prems Inr sl have "r = result" "s' = s1" by simp_all
      with evs1 Some show ?thesis
        by (intro exI [of _ "(CallListCertificates, None) # evs1"]) simp
    next
      case None
      with Cons.prems Inr sl have "pageLoop env a dn pages s1 = (r, s')" by simp
      from Cons.IH [OF this] obtain evs2 where
        evs2: "calls s' = calls s1 @ evs2" "import_inputs evs2 = []" "list_all is_acm_call evs2"
          "\<forall>ev \<in> set evs2. \<forall>err. snd ev = Some err \<longrightarrow> r = Returns (Inl err)"
        by blast
      with evs1 None show ?thesis
        by (intro exI [of _ "(CallListCertificates, None) # evs1 @ evs2"]) auto
    qed
  qed
qed

lemma findSecretByDomain_trace:
  assumes "findSecretByDomain env dn s = (r, s')"
  shows "\<exists>evs. calls s' = calls s @ evs \<and> import_inputs evs = [] \<and> list_all is_acm_call evs \<and>
       (\<forall>ev \<in> set evs. \<forall>err. snd ev = Some err \<longrightarrow> r = Returns (Inl err))"
proof -
  obtain a s1 where a: "new_string dn s = (a, s1)" by (cases "new_string dn s")
  with assms have "pageLoop env a dn (firstPage env # laterPages env) s1 = (r, s')"
    by (simp add: findSecretByDomain_def)
  from pageLoop_trace [OF this] new_string_simps(1) [OF a] show ?thesis by simp
qed

lemma summaryLoop_result:
  "summaryLoop env a dn summaries s = (r, s') \<Longrightarrow>
     (case r of None \<Rightarrow> list_all (detail_fetched env) summaries
      | Some result \<Rightarrow> result \<noteq> Returns (Inr None))"
proof (induction summaries arbitrary: s)
  case Nil
  then show ?case by auto
next
  case (Cons c cs)
  obtain d s1 where d: "DescribeCertificate env (SummaryCertificateArn c) s = (d, s1)"
    by (cases "DescribeCertificate env (SummaryCertificateArn c) s")
  note ans = DescribeCertificate_answer [OF d]
  show ?case
  proof (cases d)
    case (Inl err)
    with Cons.prems d show ?thesis by auto
  next
    case (Inr od)
    show ?thesis
    proof (cases od)
      case None
      with Cons.prems d Inr show ?thesis by auto
    next
      case (Some detail)
      show ?thesis
      proof (cases "DomainName detail = Some a \<or> sanLoop (SubjectAlternativeNames detail) dn")
        case True
        with Cons.prems d Inr Some have "r = Some (Returns (Inr (Some detail)))"
          by (auto split: if_splits)
        then show ?thesis by simp
      next
        case False
        with Cons.prems d Inr Some have "summaryLoop env a dn cs s1 = (r, s')" by simp
        from Cons.IH [OF this] ans Inr Some show ?thesis
          by (auto simp: detail_fetched_def split: option.splits)
      qed
    qed
  qed
qed

lemma pageLoop_absent:
  "pageLoop env a dn pages s = (Returns (Inr None), s') \<Longrightarrow> list_all (page_fetched env) pages"
proof (induction pages arbitrary: s)
  case Nil
  then show ?case by simp
next
  case (Cons page pages)
  show ?case
  proof (cases page)
    case (Inl err)
    with Cons.prems show ?thesis by simp
  next
    case (Inr summaries)
    obtain sr s1 where sl:
      "summaryLoop env a dn summaries (record_call CallListCertificates None s) = (sr, s1)"
      by (cases "summaryLoop env a dn summaries (record_call CallListCertificates None s)")
    note res = summaryLoop_result [OF sl]
    show ?thesis
    proof (cases sr)
      case (Some result)
      with Cons.prems Inr sl res show ?thesis by simp
    next
      case None
      with Cons.prems Inr sl have "pageLoop env a dn pages s1 = (Returns (Inr None), s')" by simp
      from Cons.IH [OF this] res None Inr show ?thesis by (simp add: page_fetched_def)
    qed
  qed
qed

text \<open>
  C5. Whenever a page fetch or a detail fetch fails during the traversal, the locator
  returns that error, so it does not report "not found". A nil record with a nil error
  comes only from a traversal in which every call succeeded, and then every page of the
  catalog was fetched and every certificate listed on it was described without error.
\<close>

theorem findSecretByDomain_failure_surfaces:
  assumes "findSecretByDomain env domainName s = (result, s')"
  shows "(\<forall>ev \<in> set (calls_since s s'). \<forall>err. snd ev = Some err \<longrightarrow> result = Returns (Inl err))
     \<and> (result = Returns (Inr None) \<longrightarrow>
          catalog_fetched env \<and> (\<forall>ev \<in> set (calls_since s s'). snd ev = None))"
proof -
  from findSecretByDomain_trace [OF assms] obtain evs where
    evs: "calls s' = calls s @ evs"
      "\<forall>ev \<in> set evs. \<forall>err. snd ev = Some err \<longrightarrow> result = Returns (Inl err)"
    by blast
  have since: "calls_since s s' = evs" by (rule calls_since_append) (rule evs(1))
  have absent: "catalog_fetched env" if "result = Returns (Inr None)"
  proof -
    obtain a s1 where a: "new_string domainName s = (a, s1)" by (cases "new_string domainName s")
    with assms that
    have "pageLoop env a domainName (firstPage env # laterPages env) s1 = (Returns (Inr None), s')"
      by (simp add: findSecretByDomain_def)
    from pageLoop_absent [OF this] show ?thesis by (simp add: catalog_fetched_def)
  qed
  have ok: "\<forall>ev \<in> set evs. snd ev = None" if "result = Returns (Inr None)"
  proof
    fix ev assume "ev \<in> set evs"
    with evs(2) that show "snd ev = None" by (cases "snd ev") auto
  qed
  from evs(2) since absent ok show ?thesis by simp
qed

text \<open>
  The comparison \<open>certDetail.DomainName == &domainName\<close> compares two addresses. The
  answer of \<open>DescribeCertificate\<close> is stored after \<open>domainName\<close> got its address, so the
  two never coincide: a record is returned only for a match among its alternate names.
\<close>

lemma sanLoop_set: "sanLoop sans domainName \<longleftrightarrow> domainName \<in> set sans"
  by (induction sans) auto

lemma DescribeCertificate_fresh:
  assumes "DescribeCertificate env arn s = (r, s')"
  shows "next_addr s \<le> next_addr s'"
    and "r = Inr (Some detail) \<Longrightarrow> a < next_addr s \<Longrightarrow> DomainName detail \<noteq> Some a"
  using assms
  by (auto simp: DescribeCertificate_def store_detail_def new_string_def
      split: sum.splits option.splits)

lemma summaryLoop_alternate_name:
  "summaryLoop env a dn summaries s = (r, s') \<Longrightarrow> a < next_addr s \<Longrightarrow>
     a < next_addr s' \<and>
     (\<forall>detail. r = Some (Returns (Inr (Some detail))) \<longrightarrow> dn \<in> set (SubjectAlternativeNames detail))"
proof (induction summaries arbitrary: s)
  case Nil
  then show ?case by simp
next
  case (Cons c cs)
  obtain d s1 where d: "DescribeCertificate env (SummaryCertificateArn c) s = (d, s1)"
    by (cases "DescribeCertificate env (SummaryCertificateArn c) s")
  from DescribeCertificate_fresh(1) [OF d] Cons.prems(2) have s1: "a < next_addr s1" by simp
  show ?case
  proof (cases d)
    case (Inl err)
    with Cons.prems d s1 show ?thesis by auto
  next
    case (Inr od)
    show ?thesis
    proof (cases od)
      case None
      with Cons.prems d Inr s1 show ?thesis by auto
    next
      case (Some detail)
      with Inr have "d = Inr (Some detail)" by simp
      from DescribeCertificate_fresh(2) [OF d this Cons.prems(2)]
      have fresh: "DomainName detail \<noteq> Some a" .
      show ?thesis
      proof (cases "sanLoop (SubjectAlternativeNames detail) dn")
        case True
        with Cons.prems(1) d Inr Some fresh s1 show ?thesis by (auto simp: sanLoop_set)
      next
        case False
        with Cons.prems(1) d Inr Some fresh have "summaryLoop env a dn cs s1 = (r, s')" by simp
        from Cons.IH [OF this s1] show ?thesis .
      qed
    qed
  qed
qed

lemma pageLoop_alternate_name:
  "pageLoop env a dn pages s = (Returns (Inr (Some detail)), s') \<Longrightarrow> a < next_addr s \<Longrightarrow>
     dn \<in> set (SubjectAlternativeNames detail)"
proof (induction pages arbitrary: s)
  case Nil
  then show ?case by simp
next
  case (Cons page pages)
  show ?case
  proof (cases page)
    case (Inl err)
    with Cons.prems show ?thesis by simp
  next
    case (Inr summaries)
    obtain sr s1 where sl:
      "summaryLoop env a dn summaries (record_call CallListCertificates None s) = (sr, s1)"
      by (cases "summaryLoop env a dn summaries (record_call CallListCertificates None s)")
    from summaryLoop_alternate_name [OF sl] Cons.prems(2)
    have s1: "a < next_addr s1"
      and found: "\<forall>detail. sr = Some (Returns (Inr (Some detail)))
                    \<longrightarrow> dn \<in> set (SubjectAlternativeNames detail)"
      by simp_all
    show ?thesis
    proof (cases sr)
      case (Some result)
      with Cons.prems(1) Inr sl found show ?thesis by simp
    next
      case None
      with Cons.prems(1) Inr sl
      have "pageLoop env a dn pages s1 = (Returns (Inr (Some detail)), s')" by simp
      from Cons.IH [OF this s1] show ?thesis .
    qed
  qed
qed

lemma findSecretByDomain_alternate_name_only:
  assumes "findSecretByDomain env domainName s = (Returns (Inr (Some detail)), s')"
  shows "domainName \<in> set (SubjectAlternativeNames detail)"
proof -
  have "pageLoop env (next_addr s) domainName (firstPage env # laterPages env)
          (snd (new_string domainName s)) = (Returns (Inr (Some detail)), s')"
    using assms by (simp add: findSecretByDomain_def new_string_def)
  moreover have "next_addr s < next_addr (snd (new_string domainName s))"
    by (simp add: new_string_def)
  ultimately show ?thesis by (rule pageLoop_alternate_name)
qed

section \<open>Properties of the reconciler\<close>

lemma Reconcile_eligible:
  assumes "newACMClient env = None" and "getSecret env req = Inr secret"
    and "eligible secret domainName"
  shows "Reconcile lib env req s = reconcileDomain lib env secret domainName (fetched req s)"
  using assms
  by (simp add: Reconcile_def NewACMClient_def Get_def reconcileSecret_def eligible_def fetched_def)

lemma Reconcile_secret_controller_eligible:
  assumes "newACMClient env = None" and "getSecret env req = Inr secret"
    and "eligible secret domainName"
  shows "Reconcile_secret_controller env req s =
           reconcileDomain_secret_controller env secret domainName (fetched req s)"
  using assms
  by (simp add: Reconcile_secret_controller_def NewACMClient_def Get_def
      reconcileSecret_secret_controller_def eligible_def fetched_def)

lemma syncCertificate_imports:
  assumes "syncCertificate env secret existingCertificate leafCert chainCert key s = (result, s')"
  shows "\<exists>evs. calls s' = calls s @ evs \<and>
     import_inputs evs =
       (case existingCertificate of
          None \<Rightarrow>
            [\<lparr>Certificate = leafCert, PrivateKey = key, CertificateChain = chainCert,
              InputCertificateArn = None, Tags = [ownershipTag secret]\<rparr>]
        | Some existing \<Rightarrow>
            (case NotAfter existing of
               None \<Rightarrow> []
             | Some notAfter \<Rightarrow>
                 if notAfter < now env + 72 * Hour
                 then [\<lparr>Certificate = leafCert, PrivateKey = key, CertificateChain = chainCert,
                        InputCertificateArn = CertificateArn existing,
                        Tags = [ownershipTag secret]\<rparr>]
                 else []))"
  using assms
  by (auto simp: syncCertificate_def updateToAcm_def importToAcm_def ImportCertificate_def
      Before_def Add_def split: option.splits if_splits prod.splits)

lemma syncCertificate_result:
  assumes "syncCertificate env secret existingCertificate leafCert chainCert key s = (result, s')"
  shows "\<exists>evs. calls s' = calls s @ evs \<and>
     (\<forall>ev \<in> set evs. \<forall>err. snd ev = Some err \<longrightarrow> result = (requeueAfter (5 * Minute), Some err)) \<and>
     ((\<forall>ev \<in> set evs. snd ev = None) \<longrightarrow> result = (requeueAfter (24 * Hour), None))"
  using assms
  by (auto simp: syncCertificate_def updateToAcm_def importToAcm_def ImportCertificate_def
      split: option.splits if_splits prod.splits)

text \<open>
  C1, as the code has it. For an eligible secret whose certificate payload splits into a
  leaf and a chain, and a locator that returns: if the located record's expiry is at or
  after now + 72 h, \<open>Reconcile\<close> makes no import call; if the expiry is strictly before
  now + 72 h (also when already past), it makes exactly one import call, carrying the
  located record's identifier; if no record was located, it makes exactly one import call
  with no identifier. The comparison is Go's \<open>Before\<close>, which is strict: a record
  expiring exactly at now + 72 h is left alone.
\<close>

theorem Reconcile_decision:
  assumes "newACMClient env = None" and "getSecret env req = Inr secret"
    and "eligible secret domainName"
    and "findSecretByDomain env domainName (fetched req s) = (Returns (Inr existingCertificate), s')"
    and "splitCertificateChain lib (index_bytes (Data secret) TLSCertKey)
           = Some (Inr (leafCert, chainCert))"
  shows "\<exists>result s''. Reconcile lib env req s = Some (Returns result, s'') \<and>
     (\<forall>existing notAfter.
        existingCertificate = Some existing \<and> NotAfter existing = Some notAfter \<and>
        now env + 72 * Hour \<le> notAfter
        \<longrightarrow> import_inputs (calls_since s s'') = []) \<and>
     (\<forall>existing notAfter.
        existingCertificate = Some existing \<and> NotAfter existing = Some notAfter \<and>
        notAfter < now env + 72 * Hour
        \<longrightarrow> import_inputs (calls_since s s'') =
              [upsertInput secret (CertificateArn existing) leafCert chainCert]) \<and>
     (existingCertificate = None
        \<longrightarrow> import_inputs (calls_since s s'') = [upsertInput secret None leafCert chainCert])"
proof -
  obtain result s'' where sync:
    "syncCertificate env secret existingCertificate leafCert chainCert
       (index_bytes (Data secret) TLSPrivateKeyKey) s' = (result, s'')"
    by (cases "syncCertificate env secret existingCertificate leafCert chainCert
       (index_bytes (Data secret) TLSPrivateKeyKey) s'")
  from assms sync have run: "Reconcile lib env req s = Some (Returns result, s'')"
    by (simp add: Reconcile_eligible reconcileDomain_def)
  from findSecretByDomain_trace [OF assms(4)] obtain evs where
    evs: "calls s' = calls (fetched req s) @ evs" "import_inputs evs = []"
    by blast
  from syncCertificate_imports [OF sync] obtain evs' where
    evs': "calls s'' = calls s' @ evs'"
      "import_inputs evs' =
         (case existingCertificate of
            None \<Rightarrow> [upsertInput secret None leafCert chainCert]
          | Some existing \<Rightarrow>
              (case NotAfter existing of
                 None \<Rightarrow> []
               | Some notAfter \<Rightarrow>
                   if notAfter < now env + 72 * Hour
                   then [upsertInput secret (CertificateArn existing) leafCert chainCert]
                   else []))"
    unfolding upsertInput_def by blast
  have "calls s'' = calls s @ ([(CallNewACMClient, None), (CallGet req, None)] @ evs @ evs')"
    using evs(1) evs'(1) by (simp add: calls_fetched)
  then have "calls_since s s'' = [(CallNewACMClient, None), (CallGet req, None)] @ evs @ evs'"
    by (rule calls_since_append)
  then have "import_inputs (calls_since s s'') = import_inputs evs'"
    using evs(2) by simp
  with evs'(2) run show ?thesis by auto
qed

text \<open>
  C7. For a fetched secret that fails the filter (the annotation \<open>sync-to-acm\<close> is not
  the string "true", or the type is not the TLS secret type, or the annotation
  \<open>cert-manager.io/common-name\<close> is missing or empty), \<open>Reconcile\<close> returns
  \<open>ctrl.Result{}\<close> with a nil error, and the only calls of the run are the client
  construction and the fetch: no \<open>ListCertificates\<close>, \<open>DescribeCertificate\<close> or
  \<open>ImportCertificate\<close>.
\<close>

theorem Reconcile_ineligible:
  assumes "newACMClient env = None" and "getSecret env req = Inr secret"
    and "index_string (Annotations secret) ''sync-to-acm'' \<noteq> ''true''
       \<or> SecretType secret \<noteq> SecretTypeTLS
       \<or> Annotations secret ''cert-manager.io/common-name'' = None
       \<or> Annotations secret ''cert-manager.io/common-name'' = Some []"
  shows "Reconcile lib env req s = Some (Returns (noRequeue, None), fetched req s)
     \<and> filter is_acm_call (calls_since s (fetched req s)) = []"
proof -
  have "calls_since s (fetched req s) = [(CallNewACMClient, None), (CallGet req, None)]"
    by (rule calls_since_append) (rule calls_fetched)
  moreover from assms
  have "Reconcile lib env req s = Some (Returns (noRequeue, None), fetched req s)"
    by (auto simp: Reconcile_def NewACMClient_def Get_def reconcileSecret_def fetched_def
        split: option.splits)
  ultimately show ?thesis by simp
qed

text \<open>
  C9. When the located record has no expiry timestamp (\<open>NotAfter\<close> is nil), \<open>Reconcile\<close>
  treats it as valid: it makes no import call, nothing is called after the locator, and
  it returns the success result, a requeue after 24 hours with a nil error.
\<close>

theorem Reconcile_no_expiry:
  assumes "newACMClient env = None" and "getSecret env req = Inr secret"
    and "eligible secret domainName"
    and "findSecretByDomain env domainName (fetched req s) = (Returns (Inr (Some existing)), s')"
    and "NotAfter existing = None"
    and "splitCertificateChain lib (index_bytes (Data secret) TLSCertKey)
           = Some (Inr (leafCert, chainCert))"
  shows "Reconcile lib env req s = Some (Returns (requeueAfter (24 * Hour), None), s')
     \<and> import_inputs (calls_since s s') = []"
proof -
  from assms have "Reconcile lib env req s = Some (Returns (requeueAfter (24 * Hour), None), s')"
    by (simp add: Reconcile_eligible reconcileDomain_def syncCertificate_def)
  moreover from findSecretByDomain_trace [OF assms(4)] obtain evs where
    evs: "calls s' = calls (fetched req s) @ evs" "import_inputs evs = []"
    by blast
  have "calls s' = calls s @ ([(CallNewACMClient, None), (CallGet req, None)] @ evs)"
    using evs(1) by (simp add: calls_fetched)
  then have "calls_since s s' = [(CallNewACMClient, None), (CallGet req, None)] @ evs"
    by (rule calls_since_append)
  with evs(2) have "import_inputs (calls_since s s') = []" by simp
  ultimately show ?thesis by simp
qed

text \<open>
  C8. For an eligible secret: when the locator returns an error, \<open>Reconcile\<close> returns a
  requeue after 5 minutes with that error; when the locator returns and the split fails,
  it returns a requeue after 5 minutes with the split's error; in both cases the run ends
  in the state the locator left, and no import call was made up to there. When both
  succeed, a failing import call gives a requeue after 5 minutes with its error, and a
  run without a failing call after the locator (an import that succeeds, or no import at
  all) gives a requeue after 24 hours with a nil error.
\<close>

theorem Reconcile_requeue:
  assumes "newACMClient env = None" and "getSecret env req = Inr secret"
    and "eligible secret domainName"
    and "findSecretByDomain env domainName (fetched req s) = (located, s')"
  shows "import_inputs (calls_since s s') = []
     \<and> (\<forall>err. located = Returns (Inl err)
           \<longrightarrow> Reconcile lib env req s = Some (Returns (requeueAfter (5 * Minute), Some err), s'))
     \<and> (\<forall>existingCertificate err.
           located = Returns (Inr existingCertificate) \<and>
           splitCertificateChain lib (index_bytes (Data secret) TLSCertKey) = Some (Inl err)
           \<longrightarrow> Reconcile lib env req s = Some (Returns (requeueAfter (5 * Minute), Some err), s'))
     \<and> (\<forall>existingCertificate leafCert chainCert.
           located = Returns (Inr existingCertificate) \<and>
           splitCertificateChain lib (index_bytes (Data secret) TLSCertKey)
             = Some (Inr (leafCert, chainCert))
           \<longrightarrow> (\<exists>result s''. Reconcile lib env req s = Some (Returns result, s'') \<and>
                  (\<forall>ev \<in> set (calls_since s' s''). \<forall>err. snd ev = Some err
                      \<longrightarrow> result = (requeueAfter (5 * Minute), Some err)) \<and>
                  ((\<forall>ev \<in> set (calls_since s' s''). snd ev = None)
                      \<longrightarrow> result = (requeueAfter (24 * Hour), None))))"
proof -
  note reach = Reconcile_eligible [OF assms(1-3), of lib s]
  from findSecretByDomain_trace [OF assms(4)] obtain evs where
    evs: "calls s' = calls (fetched req s) @ evs" "import_inputs evs = []"
    by blast
  have "calls s' = calls s @ ([(CallNewACMClient, None), (CallGet req, None)] @ evs)"
    using evs(1) by (simp add: calls_fetched)
  then have "calls_since s s' = [(CallNewACMClient, None), (CallGet req, None)] @ evs"
    by (rule calls_since_append)
  with evs(2) have no_import: "import_inputs (calls_since s s') = []" by simp
  have locate: "Reconcile lib env req s = Some (Returns (requeueAfter (5 * Minute), Some err), s')"
    if "located = Returns (Inl err)" for err
    using that assms(4) by (simp add: reach reconcileDomain_def)
  have split: "Reconcile lib env req s = Some (Returns (requeueAfter (5 * Minute), Some err), s')"
    if "located = Returns (Inr existingCertificate)"
      and "splitCertificateChain lib (index_bytes (Data secret) TLSCertKey) = Some (Inl err)"
    for existingCertificate err
    using that assms(4) by (simp add: reach reconcileDomain_def)
  have upsert: "\<exists>result s''. Reconcile lib env req s = Some (Returns result, s'') \<and>
      (\<forall>ev \<in> set (calls_since s' s''). \<forall>err. snd ev = Some err
          \<longrightarrow> result = (requeueAfter (5 * Minute), Some err)) \<and>
      ((\<forall>ev \<in> set (calls_since s' s''). snd ev = None)
          \<longrightarrow> result = (requeueAfter (24 * Hour), None))"
    if "located = Returns (Inr existingCertificate)"
      and "splitCertificateChain lib (index_bytes (Data secret) TLSCertKey)
             = Some (Inr (leafCert, chainCert))"
    for existingCertificate leafCert chainCert
  proof -
    obtain result s'' where sync:
      "syncCertificate env secret existingCertificate leafCert chainCert
         (index_bytes (Data secret) TLSPrivateKeyKey) s' = (result, s'')"
      by (cases "syncCertificate env secret existingCertificate leafCert chainCert
         (index_bytes (Data secret) TLSPrivateKeyKey) s'")
    with that assms(4) have run: "Reconcile lib env req s = Some (Returns result, s'')"
      by (simp add: reach reconcileDomain_def)
    from syncCertificate_result [OF sync] obtain evs' where
      evs': "calls s'' = calls s' @ evs'"
        "\<forall>ev \<in> set evs'. \<forall>err. snd ev = Some err \<longrightarrow> result = (requeueAfter (5 * Minute), Some err)"
        "(\<forall>ev \<in> set evs'. snd ev = None) \<longrightarrow> result = (requeueAfter (24 * Hour), None)"
      by blast
    from evs'(1) have "calls_since s' s'' = evs'" by (rule calls_since_append)
    with evs'(2,3) run show ?thesis by blast
  qed
  from no_import locate split upsert show ?thesis by blast
qed

text \<open>Every run starts by building the client.\<close>

lemma syncCertificate_secret_controller_calls:
  "syncCertificate_secret_controller env secret existingCertificate cert key s = (out, s') \<Longrightarrow>
     \<exists>evs. calls s' = calls s @ evs"
  by (auto simp: syncCertificate_secret_controller_def updateToAcm_secret_controller_def
      importToAcm_secret_controller_def ImportCertificate_def
      split: option.splits if_splits prod.splits)

lemma reconcileDomain_calls:
  assumes "reconcileDomain lib env secret domainName s = Some (out, s')"
  shows "\<exists>evs. calls s' = calls s @ evs"
proof -
  obtain located s1 where loc: "findSecretByDomain env domainName s = (located, s1)"
    by (cases "findSecretByDomain env domainName s")
  from findSecretByDomain_trace [OF loc] obtain evs where evs: "calls s1 = calls s @ evs"
    by blast
  have "\<exists>evs'. calls s' = calls s1 @ evs'"
    using assms loc
    by (auto simp: reconcileDomain_def split: outcome.splits sum.splits option.splits prod.splits
        dest: syncCertificate_imports)
  with evs show ?thesis by auto
qed

lemma reconcileDomain_secret_controller_calls:
  assumes "reconcileDomain_secret_controller env secret domainName s = (out, s')"
  shows "\<exists>evs. calls s' = calls s @ evs"
proof -
  obtain located s1 where loc: "findSecretByDomain env domainName s = (located, s1)"
    by (cases "findSecretByDomain env domainName s")
  from findSecretByDomain_trace [OF loc] obtain evs where evs: "calls s1 = calls s @ evs"
    by blast
  have "\<exists>evs'. calls s' = calls s1 @ evs'"
    using assms loc
    by (auto simp: reconcileDomain_secret_controller_def
        split: outcome.splits sum.splits option.splits prod.splits
        dest: syncCertificate_secret_controller_calls)
  with evs show ?thesis by auto
qed

lemma reconcileSecret_calls:
  "reconcileSecret lib env secret s = Some (out, s') \<Longrightarrow> \<exists>evs. calls s' = calls s @ evs"
  by (auto simp: reconcileSecret_def split: if_splits option.splits dest: reconcileDomain_calls)

lemma reconcileSecret_secret_controller_calls:
  "reconcileSecret_secret_controller env secret s = (out, s') \<Longrightarrow> \<exists>evs. calls s' = calls s @ evs"
  by (auto simp: reconcileSecret_secret_controller_def split: if_splits option.splits
      dest: reconcileDomain_secret_controller_calls)

lemma Reconcile_first_call:
  assumes "Reconcile lib env req s = Some (out, s')"
  shows "\<exists>evs. calls s' = calls s @ (CallNewACMClient, newACMClient env) # evs"
proof (cases "newACMClient env")
  case (Some err)
  with assms show ?thesis by (auto simp: Reconcile_def NewACMClient_def)
next
  case None
  show ?thesis
  proof (cases "getSecret env req")
    case (Inl err)
    with assms None show ?thesis
      by (auto simp: Reconcile_def NewACMClient_def Get_def split: if_splits)
  next
    case (Inr secret)
    with assms None have "reconcileSecret lib env secret (fetched req s) = Some (out, s')"
      by (simp add: Reconcile_def NewACMClient_def Get_def fetched_def)
    from reconcileSecret_calls [OF this] None show ?thesis by (auto simp: calls_fetched)
  qed
qed

lemma Reconcile_secret_controller_first_call:
  assumes "Reconcile_secret_controller env req s = (out, s')"
  shows "\<exists>evs. calls s' = calls s @ (CallNewACMClient, newACMClient env) # evs"
proof (cases "newACMClient env")
  case (Some err)
  with assms show ?thesis by (auto simp: Reconcile_secret_controller_def NewACMClient_def)
next
  case None
  show ?thesis
  proof (cases "getSecret env req")
    case (Inl err)
    with assms None show ?thesis
      by (auto simp: Reconcile_secret_controller_def NewACMClient_def Get_def split: if_splits)
  next
    case (Inr secret)
    with assms None
    have "reconcileSecret_secret_controller env secret (fetched req s) = (out, s')"
      by (simp add: Reconcile_secret_controller_def NewACMClient_def Get_def fetched_def)
    from reconcileSecret_secret_controller_calls [OF this] None show ?thesis
      by (auto simp: calls_fetched)
  qed
qed

text \<open>
  C10. In both files \<open>Reconcile\<close> builds the client first: the first call of every run
  is the client construction, before the secret is fetched or filtered. When the
  construction fails, \<open>Reconcile\<close> returns that error with \<open>ctrl.Result{}\<close> (no requeue
  interval) and calls nothing else, whatever the secret store holds, so also for a
  deleted or an ineligible secret.
\<close>

theorem Reconcile_client_first:
  "(\<forall>run. Reconcile lib env req s = Some run
       \<longrightarrow> take 1 (calls_since s (snd run)) = [(CallNewACMClient, newACMClient env)])
   \<and> take 1 (calls_since s (snd (Reconcile_secret_controller env req s)))
       = [(CallNewACMClient, newACMClient env)]
   \<and> (\<forall>err. newACMClient env = Some err
         \<longrightarrow> Reconcile lib env req s
               = Some (Returns (noRequeue, Some err), record_call CallNewACMClient (Some err) s)
           \<and> Reconcile_secret_controller env req s
               = (Returns (noRequeue, Some err), record_call CallNewACMClient (Some err) s))"
proof -
  have a: "take 1 (calls_since s (snd run)) = [(CallNewACMClient, newACMClient env)]"
    if "Reconcile lib env req s = Some run" for run
  proof -
    from that have "Reconcile lib env req s = Some (fst run, snd run)" by simp
    from Reconcile_first_call [OF this] obtain evs where
      "calls (snd run) = calls s @ (CallNewACMClient, newACMClient env) # evs" by blast
    then have "calls_since s (snd run) = (CallNewACMClient, newACMClient env) # evs"
      by (rule calls_since_append)
    then show ?thesis by simp
  qed
  have b: "take 1 (calls_since s (snd (Reconcile_secret_controller env req s)))
       = [(CallNewACMClient, newACMClient env)]"
  proof -
    have "Reconcile_secret_controller env req s =
            (fst (Reconcile_secret_controller env req s), snd (Reconcile_secret_controller env req s))"
      by simp
    from Reconcile_secret_controller_first_call [OF this] obtain evs where
      "calls (snd (Reconcile_secret_controller env req s))
         = calls s @ (CallNewACMClient, newACMClient env) # evs" by blast
    then have "calls_since s (snd (Reconcile_secret_controller env req s))
         = (CallNewACMClient, newACMClient env) # evs"
      by (rule calls_since_append)
    then show ?thesis by simp
  qed
  have c: "Reconcile lib env req s
               = Some (Returns (noRequeue, Some err), record_call CallNewACMClient (Some err) s)
           \<and> Reconcile_secret_controller env req s
               = (Returns (noRequeue, Some err), record_call CallNewACMClient (Some err) s)"
    if "newACMClient env = Some err" for err
    using that by (simp add: Reconcile_def Reconcile_secret_controller_def NewACMClient_def)
  from a b c show ?thesis by blast
qed

text \<open>
  C3. The two files differ in when a located record is replaced. For the same
  collaborators, request and located record (with an identifier and an expiry), and a
  certificate payload that splits, \<open>controllers/secret_controller.go\<close> imports exactly
  when the expiry is before now, the other file exactly when it is before now + 72 h. So for an expiry from now up to, but
  not including, now + 72 h the first makes no import call and the second makes one with
  the record's identifier.
\<close>

theorem reconcilers_differ:
  assumes "newACMClient env = None" and "getSecret env req = Inr secret"
    and "eligible secret domainName"
    and "findSecretByDomain env domainName (fetched req s) = (Returns (Inr (Some existing)), s')"
    and "CertificateArn existing = Some arn" and "NotAfter existing = Some notAfter"
    and "splitCertificateChain lib (index_bytes (Data secret) TLSCertKey)
           = Some (Inr (leafCert, chainCert))"
  shows "\<exists>result1 s1 result2 s2.
     Reconcile_secret_controller env req s = (Returns result1, s1) \<and>
     Reconcile lib env req s = Some (Returns result2, s2) \<and>
     import_inputs (calls_since s s1) =
       (if notAfter < now env
        then [upsertInput secret (Some arn) (index_bytes (Data secret) TLSCertKey) []]
        else []) \<and>
     import_inputs (calls_since s s2) =
       (if notAfter < now env + 72 * Hour
        then [upsertInput secret (Some arn) leafCert chainCert]
        else []) \<and>
     (now env \<le> notAfter \<and> notAfter < now env + 72 * Hour
        \<longrightarrow> import_inputs (calls_since s s1) = [] \<and>
            import_inputs (calls_since s s2) = [upsertInput secret (Some arn) leafCert chainCert])"
proof -
  from findSecretByDomain_trace [OF assms(4)] obtain evs where
    evs: "calls s' = calls (fetched req s) @ evs" "import_inputs evs = []"
    by blast
  have pre: "calls s' = calls s @ ([(CallNewACMClient, None), (CallGet req, None)] @ evs)"
    using evs(1) by (simp add: calls_fetched)
  obtain out1 s1 where one:
    "syncCertificate_secret_controller env secret (Some existing)
       (index_bytes (Data secret) TLSCertKey) (index_bytes (Data secret) TLSPrivateKeyKey) s'
       = (out1, s1)"
    by (cases "syncCertificate_secret_controller env secret (Some existing)
       (index_bytes (Data secret) TLSCertKey) (index_bytes (Data secret) TLSPrivateKeyKey) s'")
  from one assms(5,6) obtain result1 evs1 where r1: "out1 = Returns result1"
    "calls s1 = calls s' @ evs1"
    "import_inputs evs1 =
       (if notAfter < now env
        then [upsertInput secret (Some arn) (index_bytes (Data secret) TLSCertKey) []]
        else [])"
    by (auto simp: syncCertificate_secret_controller_def updateToAcm_secret_controller_def
        ImportCertificate_def Before_def upsertInput_def split: option.splits if_splits prod.splits)
  from assms one r1(1) have run1: "Reconcile_secret_controller env req s = (Returns result1, s1)"
    by (simp add: Reconcile_secret_controller_eligible reconcileDomain_secret_controller_def)
  have "calls s1 = calls s @ ([(CallNewACMClient, None), (CallGet req, None)] @ evs @ evs1)"
    using pre r1(2) by simp
  then have "calls_since s s1 = [(CallNewACMClient, None), (CallGet req, None)] @ evs @ evs1"
    by (rule calls_since_append)
  with evs(2) r1(3) have imp1: "import_inputs (calls_since s s1) =
       (if notAfter < now env
        then [upsertInput secret (Some arn) (index_bytes (Data secret) TLSCertKey) []]
        else [])"
    by simp
  obtain result2 s2 where two:
    "syncCertificate env secret (Some existing) leafCert chainCert
       (index_bytes (Data secret) TLSPrivateKeyKey) s' = (result2, s2)"
    by (cases "syncCertificate env secret (Some existing) leafCert chainCert
       (index_bytes (Data secret) TLSPrivateKeyKey) s'")
  from assms two have run2: "Reconcile lib env req s = Some (Returns result2, s2)"
    by (simp add: Reconcile_eligible reconcileDomain_def)
  from syncCertificate_imports [OF two] assms(5,6) obtain evs2 where r2:
    "calls s2 = calls s' @ evs2"
    "import_inputs evs2 =
       (if notAfter < now env + 72 * Hour
        then [upsertInput secret (Some arn) leafCert chainCert]
        else [])"
    by (auto simp: upsertInput_def)
  have "calls s2 = calls s @ ([(CallNewACMClient, None), (CallGet req, None)] @ evs @ evs2)"
    using pre r2(1) by simp
  then have "calls_since s s2 = [(CallNewACMClient, None), (CallGet req, None)] @ evs @ evs2"
    by (rule calls_since_append)
  with evs(2) r2(2) have imp2: "import_inputs (calls_since s s2) =
       (if notAfter < now env + 72 * Hour
        then [upsertInput secret (Some arn) leafCert chainCert]
        else [])"
    by simp
  from run1 run2 imp1 imp2 show ?thesis by auto
qed

section \<open>Worked examples\<close>

lemmas locate_defs =
  findSecretByDomain_def DescribeCertificate_def store_detail_def new_string_def record_call_def
  fetched_def

lemmas example_defs =
  exampleEnv_def onPage_def otherCertificate_def exampleCertificate_def commonNameOnly_def
  initial_def exampleDetail_def

lemmas reconcile_defs =
  Reconcile_def reconcileSecret_def reconcileDomain_def syncCertificate_def
  NewACMClient_def Get_def ImportCertificate_def importToAcm_def updateToAcm_def
  index_string_def index_bytes_def SecretTypeTLS_def TLSCertKey_def TLSPrivateKeyKey_def
  ownershipTag_def Before_def Add_def Hour_def Minute_def Second_def
  splitCertificateChain_def decodeLoop.simps miniEncode_def
  exampleSecret_def plainSecret_def tlsCrt_def keysOnly_def

lemma pair_from_fst: "fst p = a \<Longrightarrow> p = (a, snd p)"
  by auto

lemma example_client: "newACMClient (exampleEnv pages expiry imported) = None"
  by (simp add: exampleEnv_def)

lemma example_secret:
  "getSecret (exampleEnv pages expiry imported) (''web'', ''tls'') = Inr (exampleSecret ''tls'' tlsCrt)"
  "getSecret (exampleEnv pages expiry imported) (''web'', ''keys'') = Inr (exampleSecret ''keys'' keysOnly)"
  "getSecret (exampleEnv pages expiry imported) (''web'', ''plain'') = Inr plainSecret"
  by (simp_all add: exampleEnv_def)

lemma example_eligible: "eligible (exampleSecret name crt) ''example.com''"
  by (simp add: eligible_def exampleSecret_def index_string_def SecretTypeTLS_def)

lemma example_split:
  "splitCertificateChain miniPem (index_bytes (Data (exampleSecret name tlsCrt)) TLSCertKey)
     = Some (Inr ([1, 10], [1, 20, 1, 30]))"
  "splitCertificateChain miniPem (index_bytes (Data (exampleSecret name keysOnly)) TLSCertKey)
     = Some (Inl (Errorf ''no certificates found in PEM data''))"
  by (simp_all add: exampleSecret_def index_bytes_def TLSCertKey_def tlsCrt_def keysOnly_def
      splitCertificateChain_def decodeLoop.simps miniEncode_def)

lemma example_now: "now (exampleEnv pages expiry imported) = 1000 * Hour"
  by (simp add: exampleEnv_def)

lemma example_located:
  "fst (findSecretByDomain (exampleEnv (onPage ''arn:1'') expiry imported) ''example.com''
         (fetched req initial)) = Returns (Inr (Some (exampleDetail expiry)))"
  "calls (snd (findSecretByDomain (exampleEnv (onPage ''arn:1'') expiry imported) ''example.com''
         (fetched req initial))) =
     [(CallNewACMClient, None), (CallGet req, None), (CallListCertificates, None),
      (CallDescribeCertificate (Some ''arn:0''), None), (CallListCertificates, None),
      (CallDescribeCertificate (Some ''arn:1''), None)]"
  by (simp_all add: locate_defs example_defs)

lemma example_absent:
  "fst (findSecretByDomain (exampleEnv [] expiry imported) ''example.com''
         (fetched req initial)) = Returns (Inr None)"
  by (simp add: locate_defs example_defs)

lemma example_absent_anywhere:
  "fst (findSecretByDomain (exampleEnv [] expiry imported) ''example.com'' s) = Returns (Inr None)"
  by (simp add: locate_defs example_defs)

lemma example_list_fails:
  "fst (findSecretByDomain (exampleEnv [Inl (RemoteError ''ThrottlingException'')] expiry imported)
         ''example.com'' (fetched req initial)) = Returns (Inl (RemoteError ''ThrottlingException''))"
  by (simp add: locate_defs example_defs)

lemma example_describe_fails:
  "fst (findSecretByDomain (exampleEnv (onPage ''arn:9'') expiry imported)
         ''example.com'' s) = Returns (Inl (RemoteError ''ResourceNotFoundException''))"
  "calls_since s (snd (findSecretByDomain (exampleEnv (onPage ''arn:9'') expiry imported)
         ''example.com'' s)) =
     [(CallListCertificates, None), (CallDescribeCertificate (Some ''arn:0''), None),
      (CallListCertificates, None),
      (CallDescribeCertificate (Some ''arn:9''), Some (RemoteError ''ResourceNotFoundException''))]"
  by (simp_all add: locate_defs example_defs calls_since_def)

lemma example_upsert_fails:
  "map_option (\<lambda>(out, s). calls s)
     (Reconcile miniPem
        (exampleEnv (onPage ''arn:1'') (Some (1010 * Hour)) (Some (RemoteError ''LimitExceededException'')))
        (''web'', ''tls'') initial)
   = Some [(CallNewACMClient, None), (CallGet (''web'', ''tls''), None), (CallListCertificates, None),
      (CallDescribeCertificate (Some ''arn:0''), None), (CallListCertificates, None),
      (CallDescribeCertificate (Some ''arn:1''), None),
      (CallImportCertificate
         \<lparr>Certificate = [1, 10], PrivateKey = [2, 9], CertificateChain = [1, 20, 1, 30],
          InputCertificateArn = Some ''arn:1'', Tags = [(''kubernetes-secrets'', ''web/tls'')]\<rparr>,
       Some (RemoteError ''LimitExceededException''))]"
  by (simp add: reconcile_defs locate_defs example_defs)

lemma example_valid:
  "map_option (\<lambda>(out, s). calls s)
     (Reconcile miniPem (exampleEnv (onPage ''arn:1'') (Some (1100 * Hour)) None)
        (''web'', ''tls'') initial)
   = Some [(CallNewACMClient, None), (CallGet (''web'', ''tls''), None), (CallListCertificates, None),
      (CallDescribeCertificate (Some ''arn:0''), None), (CallListCertificates, None),
      (CallDescribeCertificate (Some ''arn:1''), None)]"
  by (simp add: reconcile_defs locate_defs example_defs)

text \<open>
  C2. The catalog holds a certificate whose primary domain is \<open>example.com\<close> and whose
  alternate names are only \<open>www.example.com\<close>. Asked for \<open>example.com\<close>, the locator
  returns no record and no error: the primary domain is compared by address, not by
  content, so it never matches.
\<close>

theorem findSecretByDomain_misses_primary_domain:
  "describeCertificate (exampleEnv (onPage ''arn:2'') None None) (Some ''arn:2'')
     = Inr (Some commonNameOnly)
   \<and> Domain commonNameOnly = Some ''example.com''
   \<and> calls_since s
         (snd (findSecretByDomain (exampleEnv (onPage ''arn:2'') None None) ''example.com'' s))
       = [(CallListCertificates, None), (CallDescribeCertificate (Some ''arn:0''), None),
          (CallListCertificates, None), (CallDescribeCertificate (Some ''arn:2''), None)]
   \<and> fst (findSecretByDomain (exampleEnv (onPage ''arn:2'') None None) ''example.com'' s)
       = Returns (Inr None)"
  by (simp add: locate_defs example_defs calls_since_def)

text \<open>
  A located record that expires exactly at now + 72 h: its expiry is at or before the end
  of the window, and \<open>Reconcile\<close> makes no import call.
\<close>

theorem Reconcile_expiry_at_window_end_counterexample:
  "fst (findSecretByDomain (exampleEnv (onPage ''arn:1'') (Some (1072 * Hour)) None) ''example.com''
         (fetched (''web'', ''tls'') initial))
     = Returns (Inr (Some \<lparr>CertificateArn = Some ''arn:1'', DomainName = Some 2,
          NotAfter = Some (now (exampleEnv (onPage ''arn:1'') (Some (1072 * Hour)) None) + 72 * Hour),
          SubjectAlternativeNames = [''example.com'', ''www.example.com'']\<rparr>))
   \<and> observe (Reconcile miniPem (exampleEnv (onPage ''arn:1'') (Some (1072 * Hour)) None)
         (''web'', ''tls'') initial)
     = Some (Returns (requeueAfter (24 * Hour), None),
         [(CallNewACMClient, None), (CallGet (''web'', ''tls''), None),
          (CallListCertificates, None), (CallDescribeCertificate (Some ''arn:0''), None),
          (CallListCertificates, None), (CallDescribeCertificate (Some ''arn:1''), None)])"
  by (simp add: observe_def reconcile_defs locate_defs example_defs)

text \<open>The theorems above, applied to the examples.\<close>

theorem Reconcile_decision_witness:
  "imports_during initial
     (Reconcile miniPem (exampleEnv (onPage ''arn:1'') (Some (1100 * Hour)) None)
        (''web'', ''tls'') initial) = Some []
   \<and> imports_during initial
     (Reconcile miniPem (exampleEnv (onPage ''arn:1'') (Some (1010 * Hour)) None)
        (''web'', ''tls'') initial)
       = Some [\<lparr>Certificate = [1, 10], PrivateKey = [2, 9], CertificateChain = [1, 20, 1, 30],
                InputCertificateArn = Some ''arn:1'',
                Tags = [(''kubernetes-secrets'', ''web/tls'')]\<rparr>]
   \<and> imports_during initial
     (Reconcile miniPem (exampleEnv [] None None) (''web'', ''tls'') initial)
       = Some [\<lparr>Certificate = [1, 10], PrivateKey = [2, 9], CertificateChain = [1, 20, 1, 30],
                InputCertificateArn = None,
                Tags = [(''kubernetes-secrets'', ''web/tls'')]\<rparr>]"
proof -
  have valid: "imports_during initial
     (Reconcile miniPem (exampleEnv (onPage ''arn:1'') (Some (1100 * Hour)) None)
        (''web'', ''tls'') initial) = Some []"
  proof -
    from Reconcile_decision [OF example_client example_secret(1) example_eligible
        pair_from_fst [OF example_located(1)] example_split(1)]
    obtain result s'' where
      "Reconcile miniPem (exampleEnv (onPage ''arn:1'') (Some (1100 * Hour)) None)
         (''web'', ''tls'') initial = Some (Returns result, s'')"
      and "\<forall>existing notAfter.
        Some (exampleDetail (Some (1100 * Hour))) = Some existing \<and>
        NotAfter existing = Some notAfter \<and>
        now (exampleEnv (onPage ''arn:1'') (Some (1100 * Hour)) None) + 72 * Hour \<le> notAfter
        \<longrightarrow> import_inputs (calls_since initial s'') = []"
      by blast
    then show ?thesis
      by (simp add: imports_during_def exampleDetail_def example_now Hour_def Minute_def Second_def)
  qed
  have expiring: "imports_during initial
     (Reconcile miniPem (exampleEnv (onPage ''arn:1'') (Some (1010 * Hour)) None)
        (''web'', ''tls'') initial)
       = Some [\<lparr>Certificate = [1, 10], PrivateKey = [2, 9], CertificateChain = [1, 20, 1, 30],
                InputCertificateArn = Some ''arn:1'',
                Tags = [(''kubernetes-secrets'', ''web/tls'')]\<rparr>]"
  proof -
    from Reconcile_decision [OF example_client example_secret(1) example_eligible
        pair_from_fst [OF example_located(1)] example_split(1)]
    obtain result s'' where
      "Reconcile miniPem (exampleEnv (onPage ''arn:1'') (Some (1010 * Hour)) None)
         (''web'', ''tls'') initial = Some (Returns result, s'')"
      and "\<forall>existing notAfter.
        Some (exampleDetail (Some (1010 * Hour))) = Some existing \<and>
        NotAfter existing = Some notAfter \<and>
        notAfter < now (exampleEnv (onPage ''arn:1'') (Some (1010 * Hour)) None) + 72 * Hour
        \<longrightarrow> import_inputs (calls_since initial s'') =
              [upsertInput (exampleSecret ''tls'' tlsCrt) (CertificateArn existing)
                 [1, 10] [1, 20, 1, 30]]"
      by blast
    then show ?thesis
      by (simp add: imports_during_def exampleDetail_def example_now Hour_def Minute_def Second_def
          upsertInput_def exampleSecret_def index_bytes_def TLSPrivateKeyKey_def ownershipTag_def)
  qed
  have absent: "imports_during initial
     (Reconcile miniPem (exampleEnv [] None None) (''web'', ''tls'') initial)
       = Some [\<lparr>Certificate = [1, 10], PrivateKey = [2, 9], CertificateChain = [1, 20, 1, 30],
                InputCertificateArn = None,
                Tags = [(''kubernetes-secrets'', ''web/tls'')]\<rparr>]"
  proof -
    from Reconcile_decision [OF example_client example_secret(1) example_eligible
        pair_from_fst [OF example_absent] example_split(1)]
    obtain result s'' where
      "Reconcile miniPem (exampleEnv [] None None) (''web'', ''tls'') initial
         = Some (Returns result, s'')"
      and "import_inputs (calls_since initial s'') =
              [upsertInput (exampleSecret ''tls'' tlsCrt) None [1, 10] [1, 20, 1, 30]]"
      by blast
    then show ?thesis
      by (simp add: imports_during_def
          upsertInput_def exampleSecret_def index_bytes_def TLSPrivateKeyKey_def ownershipTag_def)
  qed
  from valid expiring absent show ?thesis by simp
qed

theorem reconcilers_differ_witness:
  "now (exampleEnv (onPage ''arn:1'') (Some (1010 * Hour)) None) \<le> 1010 * Hour
   \<and> 1010 * Hour < now (exampleEnv (onPage ''arn:1'') (Some (1010 * Hour)) None) + 72 * Hour
   \<and> import_inputs (calls_since initial (snd (Reconcile_secret_controller
         (exampleEnv (onPage ''arn:1'') (Some (1010 * Hour)) None) (''web'', ''tls'') initial))) = []
   \<and> imports_during initial
       (Reconcile miniPem (exampleEnv (onPage ''arn:1'') (Some (1010 * Hour)) None)
          (''web'', ''tls'') initial)
       = Some [\<lparr>Certificate = [1, 10], PrivateKey = [2, 9], CertificateChain = [1, 20, 1, 30],
                InputCertificateArn = Some ''arn:1'',
                Tags = [(''kubernetes-secrets'', ''web/tls'')]\<rparr>]"
proof -
  have arn: "CertificateArn (exampleDetail (Some (1010 * Hour))) = Some ''arn:1''"
    and expiry: "NotAfter (exampleDetail (Some (1010 * Hour))) = Some (1010 * Hour)"
    by (simp_all add: exampleDetail_def)
  have window: "now (exampleEnv (onPage ''arn:1'') (Some (1010 * Hour)) None) \<le> 1010 * Hour"
    "1010 * Hour < now (exampleEnv (onPage ''arn:1'') (Some (1010 * Hour)) None) + 72 * Hour"
    by (simp_all add: example_now Hour_def Minute_def Second_def)
  from reconcilers_differ [OF example_client example_secret(1) example_eligible
      pair_from_fst [OF example_located(1)] arn expiry example_split(1)]
  obtain result1 s1 result2 s2 where
    "Reconcile_secret_controller (exampleEnv (onPage ''arn:1'') (Some (1010 * Hour)) None)
       (''web'', ''tls'') initial = (Returns result1, s1)"
    and "Reconcile miniPem (exampleEnv (onPage ''arn:1'') (Some (1010 * Hour)) None)
       (''web'', ''tls'') initial = Some (Returns result2, s2)"
    and "now (exampleEnv (onPage ''arn:1'') (Some (1010 * Hour)) None) \<le> 1010 * Hour \<and>
         1010 * Hour < now (exampleEnv (onPage ''arn:1'') (Some (1010 * Hour)) None) + 72 * Hour
        \<longrightarrow> import_inputs (calls_since initial s1) = [] \<and>
            import_inputs (calls_since initial s2) =
              [upsertInput (exampleSecret ''tls'' tlsCrt) (Some ''arn:1'') [1, 10] [1, 20, 1, 30]]"
    by blast
  with window show ?thesis
    by (simp add: imports_during_def
        upsertInput_def exampleSecret_def index_bytes_def TLSPrivateKeyKey_def ownershipTag_def)
qed

theorem findSecretByDomain_failure_surfaces_witness:
  "(CallDescribeCertificate (Some ''arn:9''), Some (RemoteError ''ResourceNotFoundException''))
     \<in> set (calls_since initial
         (snd (findSecretByDomain (exampleEnv (onPage ''arn:9'') None None) ''example.com'' initial)))
   \<and> fst (findSecretByDomain (exampleEnv (onPage ''arn:9'') None None) ''example.com'' initial)
       = Returns (Inl (RemoteError ''ResourceNotFoundException''))
   \<and> fst (findSecretByDomain (exampleEnv [] None None) ''example.com'' initial) = Returns (Inr None)
   \<and> catalog_fetched (exampleEnv [] None None)"
proof -
  have failed:
    "(CallDescribeCertificate (Some ''arn:9''), Some (RemoteError ''ResourceNotFoundException''))
       \<in> set (calls_since initial
           (snd (findSecretByDomain (exampleEnv (onPage ''arn:9'') None None) ''example.com'' initial)))"
    by (simp add: example_describe_fails(2))
  from findSecretByDomain_failure_surfaces
    [of "exampleEnv (onPage ''arn:9'') None None" "''example.com''" initial
        "fst (findSecretByDomain (exampleEnv (onPage ''arn:9'') None None) ''example.com'' initial)"
        "snd (findSecretByDomain (exampleEnv (onPage ''arn:9'') None None) ''example.com'' initial)"]
    failed
  have surfaced:
    "fst (findSecretByDomain (exampleEnv (onPage ''arn:9'') None None) ''example.com'' initial)
       = Returns (Inl (RemoteError ''ResourceNotFoundException''))"
    by fastforce
  from findSecretByDomain_failure_surfaces
    [OF pair_from_fst [OF example_absent_anywhere [of None None initial]]]
  have "catalog_fetched (exampleEnv [] None None)" by simp
  with failed surfaced example_absent_anywhere show ?thesis by simp
qed

theorem Reconcile_ineligible_witness:
  "index_string (Annotations plainSecret) ''sync-to-acm'' \<noteq> ''true''
   \<and> observe (Reconcile miniPem (exampleEnv (onPage ''arn:1'') None None) (''web'', ''plain'') initial)
       = Some (Returns (noRequeue, None),
               [(CallNewACMClient, None), (CallGet (''web'', ''plain''), None)])"
proof -
  have skip: "index_string (Annotations plainSecret) ''sync-to-acm'' \<noteq> ''true''"
    by (simp add: plainSecret_def index_string_def)
  from Reconcile_ineligible [OF example_client example_secret(3) disjI1 [OF skip]]
  have "Reconcile miniPem (exampleEnv (onPage ''arn:1'') None None) (''web'', ''plain'') initial
          = Some (Returns (noRequeue, None), fetched (''web'', ''plain'') initial)"
    by blast
  with skip show ?thesis by (simp add: observe_def fetched_def initial_def)
qed

theorem Reconcile_requeue_witness:
  "map_option fst (Reconcile miniPem (exampleEnv [Inl (RemoteError ''ThrottlingException'')] None None)
       (''web'', ''tls'') initial)
     = Some (Returns (requeueAfter (5 * Minute), Some (RemoteError ''ThrottlingException'')))
   \<and> imports_during initial
       (Reconcile miniPem (exampleEnv [Inl (RemoteError ''ThrottlingException'')] None None)
          (''web'', ''tls'') initial) = Some []
   \<and> map_option fst (Reconcile miniPem (exampleEnv (onPage ''arn:1'') (Some (1010 * Hour)) None)
       (''web'', ''keys'') initial)
     = Some (Returns (requeueAfter (5 * Minute),
                      Some (Errorf ''no certificates found in PEM data'')))
   \<and> imports_during initial
       (Reconcile miniPem (exampleEnv (onPage ''arn:1'') (Some (1010 * Hour)) None)
          (''web'', ''keys'') initial) = Some []
   \<and> map_option fst (Reconcile miniPem
        (exampleEnv (onPage ''arn:1'') (Some (1010 * Hour)) (Some (RemoteError ''LimitExceededException'')))
        (''web'', ''tls'') initial)
     = Some (Returns (requeueAfter (5 * Minute), Some (RemoteError ''LimitExceededException'')))
   \<and> map_option fst (Reconcile miniPem (exampleEnv (onPage ''arn:1'') (Some (1100 * Hour)) None)
       (''web'', ''tls'') initial)
     = Some (Returns (requeueAfter (24 * Hour), None))"
proof -
  have locate: "map_option fst
        (Reconcile miniPem (exampleEnv [Inl (RemoteError ''ThrottlingException'')] None None)
           (''web'', ''tls'') initial)
      = Some (Returns (requeueAfter (5 * Minute), Some (RemoteError ''ThrottlingException'')))
    \<and> imports_during initial
        (Reconcile miniPem (exampleEnv [Inl (RemoteError ''ThrottlingException'')] None None)
           (''web'', ''tls'') initial) = Some []"
    using Reconcile_requeue [OF example_client example_secret(1) example_eligible
        pair_from_fst [OF example_list_fails], of None None miniPem]
    by (simp add: imports_during_def)
  have split: "map_option fst
        (Reconcile miniPem (exampleEnv (onPage ''arn:1'') (Some (1010 * Hour)) None)
           (''web'', ''keys'') initial)
      = Some (Returns (requeueAfter (5 * Minute),
                       Some (Errorf ''no certificates found in PEM data'')))
    \<and> imports_during initial
        (Reconcile miniPem (exampleEnv (onPage ''arn:1'') (Some (1010 * Hour)) None)
           (''web'', ''keys'') initial) = Some []"
    using Reconcile_requeue [OF example_client example_secret(2) example_eligible
        pair_from_fst [OF example_located(1)], of "Some (1010 * Hour)" None miniPem]
      example_split(2) [of "''keys''"]
    by (simp add: imports_during_def)
  have upsert: "map_option fst (Reconcile miniPem
        (exampleEnv (onPage ''arn:1'') (Some (1010 * Hour)) (Some (RemoteError ''LimitExceededException'')))
        (''web'', ''tls'') initial)
     = Some (Returns (requeueAfter (5 * Minute), Some (RemoteError ''LimitExceededException'')))"
  proof -
    let ?env = "exampleEnv (onPage ''arn:1'') (Some (1010 * Hour))
                  (Some (RemoteError ''LimitExceededException''))"
    let ?s' = "snd (findSecretByDomain ?env ''example.com'' (fetched (''web'', ''tls'') initial))"
    from Reconcile_requeue [OF example_client example_secret(1) example_eligible
        pair_from_fst [OF example_located(1)], of "Some (1010 * Hour)"
        "Some (RemoteError ''LimitExceededException'')" miniPem] example_split(1) [of "''tls''"]
    obtain result s'' where
      run: "Reconcile miniPem ?env (''web'', ''tls'') initial = Some (Returns result, s'')"
      and failure: "\<forall>ev \<in> set (calls_since ?s' s''). \<forall>err. snd ev = Some err
                      \<longrightarrow> result = (requeueAfter (5 * Minute), Some err)"
      by blast
    from run example_upsert_fails example_located(2) [of "Some (1010 * Hour)"
        "Some (RemoteError ''LimitExceededException'')" "(''web'', ''tls'')"]
    have "calls_since ?s' s'' =
        [(CallImportCertificate
           \<lparr>Certificate = [1, 10], PrivateKey = [2, 9], CertificateChain = [1, 20, 1, 30],
            InputCertificateArn = Some ''arn:1'', Tags = [(''kubernetes-secrets'', ''web/tls'')]\<rparr>,
          Some (RemoteError ''LimitExceededException''))]"
      by (simp add: calls_since_def)
    with failure have "result = (requeueAfter (5 * Minute), Some (RemoteError ''LimitExceededException''))"
      by simp
    with run show ?thesis by simp
  qed
  have success: "map_option fst (Reconcile miniPem (exampleEnv (onPage ''arn:1'') (Some (1100 * Hour)) None)
       (''web'', ''tls'') initial)
     = Some (Returns (requeueAfter (24 * Hour), None))"
  proof -
    let ?env = "exampleEnv (onPage ''arn:1'') (Some (1100 * Hour)) None"
    let ?s' = "snd (findSecretByDomain ?env ''example.com'' (fetched (''web'', ''tls'') initial))"
    from Reconcile_requeue [OF example_client example_secret(1) example_eligible
        pair_from_fst [OF example_located(1)], of "Some (1100 * Hour)" None miniPem]
      example_split(1) [of "''tls''"]
    obtain result s'' where
      run: "Reconcile miniPem ?env (''web'', ''tls'') initial = Some (Returns result, s'')"
      and ok: "(\<forall>ev \<in> set (calls_since ?s' s''). snd ev = None)
                      \<longrightarrow> result = (requeueAfter (24 * Hour), None)"
      by blast
    from run example_valid example_located(2) [of "Some (1100 * Hour)" None "(''web'', ''tls'')"]
    have "calls_since ?s' s'' = []"
      by (simp add: calls_since_def)
    with ok have "result = (requeueAfter (24 * Hour), None)" by simp
    with run show ?thesis by simp
  qed
  from locate split upsert success show ?thesis by simp
qed

theorem Reconcile_no_expiry_witness:
  "NotAfter (exampleDetail None) = None
   \<and> map_option fst (Reconcile miniPem (exampleEnv (onPage ''arn:1'') None None)
        (''web'', ''tls'') initial) = Some (Returns (requeueAfter (24 * Hour), None))
   \<and> imports_during initial (Reconcile miniPem (exampleEnv (onPage ''arn:1'') None None)
        (''web'', ''tls'') initial) = Some []"
proof -
  have none: "NotAfter (exampleDetail None) = None" by (simp add: exampleDetail_def)
  from Reconcile_no_expiry [OF example_client example_secret(1) example_eligible
      pair_from_fst [OF example_located(1)] none example_split(1)] none
  show ?thesis by (simp add: imports_during_def)
qed

theorem Reconcile_client_first_witness:
  "newACMClient noClientEnv = Some (RemoteError ''NoCredentialProviders'')
   \<and> getSecret noClientEnv (''web'', ''gone'') = Inl (StatusNotFound ''secrets'')
   \<and> observe (Reconcile miniPem noClientEnv (''web'', ''gone'') initial)
       = Some (Returns (noRequeue, Some (RemoteError ''NoCredentialProviders'')),
               [(CallNewACMClient, Some (RemoteError ''NoCredentialProviders''))])
   \<and> fst (Reconcile_secret_controller noClientEnv (''web'', ''plain'') initial)
       = Returns (noRequeue, Some (RemoteError ''NoCredentialProviders''))
   \<and> take 1 (calls_since initial (snd (Reconcile_secret_controller
         (exampleEnv [] None None) (''web'', ''tls'') initial))) = [(CallNewACMClient, None)]"
proof -
  have client: "newACMClient noClientEnv = Some (RemoteError ''NoCredentialProviders'')"
    and gone: "getSecret noClientEnv (''web'', ''gone'') = Inl (StatusNotFound ''secrets'')"
    by (simp_all add: noClientEnv_def exampleEnv_def)
  note first = Reconcile_client_first [of miniPem "exampleEnv [] None None" "(''web'', ''tls'')" initial]
  from Reconcile_client_first [of miniPem noClientEnv "(''web'', ''gone'')" initial] client
  have "Reconcile miniPem noClientEnv (''web'', ''gone'') initial
          = Some (Returns (noRequeue, Some (RemoteError ''NoCredentialProviders'')),
                  record_call CallNewACMClient (Some (RemoteError ''NoCredentialProviders'')) initial)"
    by blast
  moreover
  from Reconcile_client_first [of miniPem noClientEnv "(''web'', ''plain'')" initial] client
  have "Reconcile_secret_controller noClientEnv (''web'', ''plain'') initial
          = (Returns (noRequeue, Some (RemoteError ''NoCredentialProviders'')),
             record_call CallNewACMClient (Some (RemoteError ''NoCredentialProviders'')) initial)"
    by blast
  ultimately show ?thesis using client gone first
    by (simp add: observe_def initial_def example_client)
qed

end
